theory Spec2Isabelle
  imports Complex_Main "HOL-Library.Word"
begin

section \<open>Phonons at grid points: a model of \<^verbatim>\<open>c/anharmonic/phonoc_utils.c\<close>\<close>

text \<open>
  Conventions of the model.
  \<^item> A C pointer is the memory it reaches, a function from the element offset (a C
    \<^verbatim>\<open>int\<close>) to the element. Passing \<^verbatim>\<open>p + off\<close> is \<open>shift p off\<close>; what the callee
    leaves there is put back with \<open>unshift off\<close>. Reads and writes outside an allocation
    are undefined in C and are not distinguished here.
  \<^item> A \<^verbatim>\<open>double\<close> is a real number: arithmetic is exact, and rounding, infinities and
    NaN are outside the model. A quotient whose divisor is zero is therefore not
    modelled (C gives an infinity or a NaN there); no statement below relies on its value.
  \<^item> A C \<^verbatim>\<open>int\<close> is an integer; no index computation of the file is near the 32-bit range.
  \<^item> A possibly \<^verbatim>\<open>NULL\<close> pointer is an option, \<open>None\<close> for \<^verbatim>\<open>NULL\<close>.
  \<^item> The \<^verbatim>\<open>omp parallel for\<close> of \<^verbatim>\<open>get_undone_phonons\<close> is run in the order of the list of
    undone points.
\<close>

type_synonym 'a ptr = "int \<Rightarrow> 'a"

type_synonym cchar = "8 word"

text \<open>
  \<^verbatim>\<open>Darray\<close>, \<^verbatim>\<open>Iarray\<close> and \<^verbatim>\<open>Carray\<close> are declared in \<^verbatim>\<open>phonoc_array.h\<close>; the file uses
  their fields \<^verbatim>\<open>dims\<close> and \<^verbatim>\<open>data\<close> only.
\<close>

record 'a array =
  dims :: "int ptr"
  data :: "'a ptr"

type_synonym Darray = "real array"
type_synonym Iarray = "int array"
type_synonym Carray = "complex array"

definition shift :: "'a ptr \<Rightarrow> int \<Rightarrow> 'a ptr" where
  "shift p off = (\<lambda>i. p (off + i))"

definition unshift :: "int \<Rightarrow> 'a ptr \<Rightarrow> 'a ptr" where
  "unshift off p = (\<lambda>k. p (k - off))"

text \<open>
  The functions of \<^verbatim>\<open>dynmat.c\<close> and \<^verbatim>\<open>lapack_wrapper.c\<close> that the file calls are
  parameters of the model. \<open>get_charge_sum\<close> returns the tensor it writes into the
  freshly allocated buffer; \<open>get_dynamical_matrix_at_q\<close> returns the two buffers it
  writes; \<open>phonopy_zheev\<close> gets the contents of \<^verbatim>\<open>w\<close> and \<^verbatim>\<open>a\<close> and returns its status
  with what it leaves in \<^verbatim>\<open>w\<close> and \<^verbatim>\<open>a\<close>.
\<close>

record externals =
  get_charge_sum :: "int \<Rightarrow> real \<Rightarrow> real ptr \<Rightarrow> real ptr \<Rightarrow> real ptr"
  get_dynamical_matrix_at_q ::
    "real ptr \<Rightarrow> real ptr \<Rightarrow> int \<Rightarrow> int \<Rightarrow> real ptr \<Rightarrow> real ptr \<Rightarrow> real ptr \<Rightarrow> int ptr \<Rightarrow>
     real ptr \<Rightarrow> int ptr \<Rightarrow> int ptr \<Rightarrow> real ptr option \<Rightarrow> real ptr \<times> real ptr"
  phonopy_zheev :: "real ptr \<Rightarrow> complex ptr \<Rightarrow> int \<Rightarrow> cchar \<Rightarrow> int \<times> real ptr \<times> complex ptr"

subsection \<open>\<^verbatim>\<open>collect_undone_grid_points\<close>\<close>

text \<open>
  One turn of the loop, for the grid point \<open>gp = grid_points[i]\<close>. The array
  \<^verbatim>\<open>undone\<close> with its counter \<^verbatim>\<open>num_undone\<close> is the list of the points stored so far;
  the size \<^verbatim>\<open>frequencies->dims[0]\<close> of its allocation is not part of the model.
\<close>

definition collect_step :: "int \<Rightarrow> int list \<times> cchar ptr \<Rightarrow> int list \<times> cchar ptr" where
  "collect_step gp s =
     (case s of (undone, phonon_done) \<Rightarrow>
        if phonon_done gp = 0 then (undone @ [gp], phonon_done(gp := 1))
        else (undone, phonon_done))"

definition collect_undone_grid_points ::
  "cchar ptr \<Rightarrow> int \<Rightarrow> int ptr \<Rightarrow> int list \<times> cchar ptr" where
  "collect_undone_grid_points phonon_done num_grid_points grid_points =
     fold (\<lambda>i. collect_step (grid_points i)) [0..num_grid_points - 1] ([], phonon_done)"

subsection \<open>\<^verbatim>\<open>get_phonons\<close>\<close>

text \<open>The two loops that fill \<^verbatim>\<open>q_cart\<close> from \<^verbatim>\<open>q_direction\<close> or from \<^verbatim>\<open>q\<close>.\<close>

definition to_cartesian :: "real ptr \<Rightarrow> real ptr \<Rightarrow> real ptr" where
  "to_cartesian reciprocal_lattice v =
     fold (\<lambda>i q_cart.
             fold (\<lambda>j q_cart. q_cart(i := q_cart i + reciprocal_lattice (i * 3 + j) * v j))
                  [0..2] (q_cart(i := 0)))
          [0..2] (\<lambda>_. 0)"

definition inv_dielectric_factor_of :: "real ptr \<Rightarrow> real ptr \<Rightarrow> real" where
  "inv_dielectric_factor_of dielectric q_cart =
     fold (\<lambda>i inv_dielectric_factor.
             inv_dielectric_factor +
             fold (\<lambda>j tmp_val. tmp_val + dielectric (i * 3 + j) * q_cart j) [0..2] 0 * q_cart i)
          [0..2] 0"

text \<open>
  The block \<^verbatim>\<open>if (born) { ... } else { charge_sum = NULL; }\<close>: the value of
  \<^verbatim>\<open>charge_sum\<close> handed to \<^verbatim>\<open>get_dynamical_matrix_at_q\<close>.
\<close>

definition nac_charge_sum ::
  "externals \<Rightarrow> int \<Rightarrow> int \<Rightarrow> real ptr \<Rightarrow> real ptr option \<Rightarrow> real ptr \<Rightarrow> real ptr \<Rightarrow>
   real ptr option \<Rightarrow> real \<Rightarrow> real ptr option" where
  "nac_charge_sum E num_patom num_satom q born dielectric reciprocal_lattice q_direction nac_factor =
     (case born of
        Some born_data \<Rightarrow>
          if \<bar>q 0\<bar> < 1 / 10 ^ 10 \<and> \<bar>q 1\<bar> < 1 / 10 ^ 10 \<and> \<bar>q 2\<bar> < 1 / 10 ^ 10 \<and>
             q_direction = None
          then None
          else
            let q_cart = (case q_direction of
                            Some dir \<Rightarrow> to_cartesian reciprocal_lattice dir
                          | None \<Rightarrow> to_cartesian reciprocal_lattice q);
                inv_dielectric_factor = inv_dielectric_factor_of dielectric q_cart;
                dielectric_factor =
                  nac_factor / inv_dielectric_factor / real_of_int num_satom * real_of_int num_patom
            in Some (get_charge_sum E num_patom dielectric_factor q_cart born_data)
      | None \<Rightarrow> None)"

text \<open>The double loop that writes the matrix \<^verbatim>\<open>a\<close> handed to the eigensolver.\<close>

definition hermitize :: "real ptr \<Rightarrow> real ptr \<Rightarrow> int \<Rightarrow> complex ptr \<Rightarrow> complex ptr" where
  "hermitize dm_real dm_imag num_patom a =
     fold (\<lambda>i a.
             fold (\<lambda>j a. a(i * num_patom * 3 + j :=
                     Complex
                       ((dm_real (i * num_patom * 3 + j) + dm_real (j * num_patom * 3 + i)) / 2)
                       ((dm_imag (i * num_patom * 3 + j) - dm_imag (j * num_patom * 3 + i)) / 2)))
                  [0..num_patom * 3 - 1] a)
          [0..num_patom * 3 - 1] a"

text \<open>
  The right-hand side of the last loop,
  \<^verbatim>\<open>sqrt(fabs(w[i])) * ((w[i] > 0) - (w[i] < 0)) * unit_conversion_factor\<close>,
  and the loop itself.
\<close>

definition frequency_of :: "real \<Rightarrow> real \<Rightarrow> real" where
  "frequency_of unit_conversion_factor x =
     sqrt \<bar>x\<bar> * real_of_int ((if x > 0 then 1 else 0) - (if x < 0 then 1 else 0)) *
     unit_conversion_factor"

definition convert_frequencies :: "real \<Rightarrow> int \<Rightarrow> real ptr \<Rightarrow> real ptr" where
  "convert_frequencies unit_conversion_factor n w =
     fold (\<lambda>i w. w(i := frequency_of unit_conversion_factor (w i))) [0..n - 1] w"

definition get_phonons ::
  "externals \<Rightarrow> complex ptr \<Rightarrow> real ptr \<Rightarrow> real ptr \<Rightarrow> Darray \<Rightarrow> real ptr \<Rightarrow> int ptr \<Rightarrow> int ptr \<Rightarrow>
   Iarray \<Rightarrow> Darray \<Rightarrow> real ptr option \<Rightarrow> real ptr \<Rightarrow> real ptr \<Rightarrow> real ptr option \<Rightarrow> real \<Rightarrow>
   real \<Rightarrow> cchar \<Rightarrow> int \<times> real ptr \<times> complex ptr" where
  "get_phonons E a w q fc2 masses p2s s2p multi svecs born dielectric reciprocal_lattice
     q_direction nac_factor unit_conversion_factor uplo =
     (let num_patom = dims multi 1;
          num_satom = dims multi 0;
          charge_sum = nac_charge_sum E num_patom num_satom q born dielectric reciprocal_lattice
                         q_direction nac_factor;
          (dm_real, dm_imag) =
            get_dynamical_matrix_at_q E (\<lambda>_. 0) (\<lambda>_. 0) num_patom num_satom (data fc2) q
              (data svecs) (data multi) masses s2p p2s charge_sum;
          a1 = hermitize dm_real dm_imag num_patom a;
          (info, w2, a2) = phonopy_zheev E w a1 (num_patom * 3) uplo
      in (info, convert_frequencies unit_conversion_factor (num_patom * 3) w2, a2))"

subsection \<open>\<^verbatim>\<open>get_undone_phonons\<close> and \<^verbatim>\<open>set_phonons_at_gridpoints\<close>\<close>

definition grid_q :: "int ptr \<Rightarrow> int ptr \<Rightarrow> int \<Rightarrow> real ptr" where
  "grid_q grid_address mesh gp =
     fold (\<lambda>j q. q(j := real_of_int (grid_address (gp * 3 + j)) / real_of_int (mesh j)))
          [0..2] (\<lambda>_. 0)"

text \<open>
  One turn of the loop over the undone points. The status that \<^verbatim>\<open>get_phonons\<close>
  returns is not assigned in the source.
\<close>

definition undone_step ::
  "externals \<Rightarrow> int ptr \<Rightarrow> int ptr \<Rightarrow> Darray \<Rightarrow> Darray \<Rightarrow> Iarray \<Rightarrow> real ptr \<Rightarrow> int ptr \<Rightarrow>
   int ptr \<Rightarrow> real \<Rightarrow> real ptr option \<Rightarrow> real ptr \<Rightarrow> real ptr \<Rightarrow> real ptr option \<Rightarrow> real \<Rightarrow>
   cchar \<Rightarrow> int \<Rightarrow> Darray \<times> Carray \<Rightarrow> Darray \<times> Carray" where
  "undone_step E grid_address mesh fc2 svecs_fc2 multi_fc2 masses_fc2 p2s_fc2 s2p_fc2
     unit_conversion_factor born dielectric reciprocal_lattice q_direction nac_factor uplo gp s =
     (case s of (frequencies, eigenvectors) \<Rightarrow>
        let num_band = dims frequencies 1;
            q = grid_q grid_address mesh gp;
            (info, w, a) =
              (if gp = 0 then
                 get_phonons E (shift (data eigenvectors) (num_band * num_band * gp))
                   (shift (data frequencies) (num_band * gp)) q fc2 masses_fc2 p2s_fc2 s2p_fc2
                   multi_fc2 svecs_fc2 born dielectric reciprocal_lattice q_direction nac_factor
                   unit_conversion_factor uplo
               else
                 get_phonons E (shift (data eigenvectors) (num_band * num_band * gp))
                   (shift (data frequencies) (num_band * gp)) q fc2 masses_fc2 p2s_fc2 s2p_fc2
                   multi_fc2 svecs_fc2 born dielectric reciprocal_lattice None nac_factor
                   unit_conversion_factor uplo)
        in (frequencies\<lparr>data := unshift (num_band * gp) w\<rparr>,
            eigenvectors\<lparr>data := unshift (num_band * num_band * gp) a\<rparr>))"

definition get_undone_phonons ::
  "externals \<Rightarrow> Darray \<Rightarrow> Carray \<Rightarrow> int list \<Rightarrow> int ptr \<Rightarrow> int ptr \<Rightarrow> Darray \<Rightarrow> Darray \<Rightarrow>
   Iarray \<Rightarrow> real ptr \<Rightarrow> int ptr \<Rightarrow> int ptr \<Rightarrow> real \<Rightarrow> real ptr option \<Rightarrow> real ptr \<Rightarrow> real ptr \<Rightarrow>
   real ptr option \<Rightarrow> real \<Rightarrow> cchar \<Rightarrow> Darray \<times> Carray" where
  "get_undone_phonons E frequencies eigenvectors undone_grid_points grid_address mesh fc2
     svecs_fc2 multi_fc2 masses_fc2 p2s_fc2 s2p_fc2 unit_conversion_factor born dielectric
     reciprocal_lattice q_direction nac_factor uplo =
     fold (undone_step E grid_address mesh fc2 svecs_fc2 multi_fc2 masses_fc2 p2s_fc2 s2p_fc2
             unit_conversion_factor born dielectric reciprocal_lattice q_direction nac_factor uplo)
          undone_grid_points (frequencies, eigenvectors)"

definition set_phonons_at_gridpoints ::
  "externals \<Rightarrow> Darray \<Rightarrow> Carray \<Rightarrow> cchar ptr \<Rightarrow> Iarray \<Rightarrow> int ptr \<Rightarrow> int ptr \<Rightarrow> Darray \<Rightarrow>
   Darray \<Rightarrow> Iarray \<Rightarrow> real ptr \<Rightarrow> int ptr \<Rightarrow> int ptr \<Rightarrow> real \<Rightarrow> real ptr option \<Rightarrow> real ptr \<Rightarrow>
   real ptr \<Rightarrow> real ptr option \<Rightarrow> real \<Rightarrow> cchar \<Rightarrow> Darray \<times> Carray \<times> cchar ptr" where
  "set_phonons_at_gridpoints E frequencies eigenvectors phonon_done grid_points grid_address mesh
     fc2 svecs_fc2 multi_fc2 masses_fc2 p2s_fc2 s2p_fc2 unit_conversion_factor born dielectric
     reciprocal_lattice q_direction nac_factor uplo =
     (case collect_undone_grid_points phonon_done (dims grid_points 0) (data grid_points) of
        (undone, phonon_done') \<Rightarrow>
          (case get_undone_phonons E frequencies eigenvectors undone grid_address mesh fc2
                  svecs_fc2 multi_fc2 masses_fc2 p2s_fc2 s2p_fc2 unit_conversion_factor born
                  dielectric reciprocal_lattice q_direction nac_factor uplo of
             (frequencies', eigenvectors') \<Rightarrow> (frequencies', eigenvectors', phonon_done')))"

subsection \<open>\<^verbatim>\<open>get_phase_factor\<close>\<close>

text \<open>
  Modelled from the spec: the constant \<^verbatim>\<open>M_2PI\<close> of \<^verbatim>\<open>phonoc_math.h\<close>, which the
  spec gives as \<open>2\<pi>\<close>.
\<close>

definition M_2PI :: real where
  "M_2PI = 2 * pi"

definition get_phase_factor ::
  "real ptr \<Rightarrow> Darray \<Rightarrow> Iarray \<Rightarrow> int \<Rightarrow> int \<Rightarrow> int \<Rightarrow> complex" where
  "get_phase_factor q shortest_vectors multiplicity pi0 si qi =
     (let svecs = shift (data shortest_vectors)
                    (si * dims shortest_vectors 1 * dims shortest_vectors 2 * 3 +
                     pi0 * dims shortest_vectors 2 * 3);
          multi = data multiplicity (si * dims multiplicity 1 + pi0);
          (sum_real, sum_imag) =
            fold (\<lambda>i (sum_real, sum_imag).
                    let phase = fold (\<lambda>j phase. phase + q (qi * 3 + j) * svecs (i * 3 + j))
                                  [0..2] 0
                    in (sum_real + cos (M_2PI * phase), sum_imag + sin (M_2PI * phase)))
                 [0..multi - 1] (0, 0)
      in Complex (sum_real / real_of_int multi) (sum_imag / real_of_int multi))"

subsection \<open>A small instance\<close>

text \<open>
  One primitive atom in a supercell of one atom, eight grid points on a mesh of
  \<open>2 \<times> 2 \<times> 2\<close>, three bands. The external functions are stand-ins: the dynamical
  matrix is the given pair \<open>dm\<close> of a real and an imaginary part, and the eigensolver
  leaves its buffers as they are and returns the status \<open>info\<close>.
\<close>

definition ex_externals :: "int \<Rightarrow> real ptr \<times> real ptr \<Rightarrow> externals" where
  "ex_externals info dm =
     \<lparr>get_charge_sum = (\<lambda>num_patom factor q_cart born. (\<lambda>_. factor)),
      get_dynamical_matrix_at_q =
        (\<lambda>dm_real dm_imag num_patom num_satom fc q svecs multi mass s2p p2s charge_sum. dm),
      phonopy_zheev = (\<lambda>w a n uplo. (info, w, a))\<rparr>"

definition ex_dm :: "real ptr \<times> real ptr" where
  "ex_dm = ((\<lambda>i. real_of_int i), (\<lambda>i. real_of_int (i * i)))"

definition ex_zeros :: "'a::zero ptr" where
  "ex_zeros = (\<lambda>_. 0)"

definition ex_frequencies :: Darray where
  "ex_frequencies = \<lparr>dims = (\<lambda>_. 0)(0 := 8, 1 := 3), data = (\<lambda>_. - 4)\<rparr>"

definition ex_eigenvectors :: Carray where
  "ex_eigenvectors = \<lparr>dims = (\<lambda>_. 0)(0 := 8, 1 := 3, 2 := 3), data = (\<lambda>_. 0)\<rparr>"

definition ex_grid_points :: Iarray where
  "ex_grid_points = \<lparr>dims = (\<lambda>_. 0)(0 := 3), data = (\<lambda>i. if i = 2 then 7 else 5)\<rparr>"

definition ex_multi :: Iarray where
  "ex_multi = \<lparr>dims = (\<lambda>_. 0)(0 := 1, 1 := 1), data = (\<lambda>_. 1)\<rparr>"

definition ex_table :: Darray where
  "ex_table = \<lparr>dims = (\<lambda>_. 1), data = (\<lambda>_. 1)\<rparr>"

definition ex_identity :: "real ptr" where
  "ex_identity = (\<lambda>i. if i = 0 \<or> i = 4 \<or> i = 8 then 1 else 0)"

definition ex_direction :: "real ptr" where
  "ex_direction = (\<lambda>i. if i = 0 then 1 else 0)"

text \<open>
  A cache whose frequency slot of grid point \<open>5\<close> starts with the value \<open>1\<close>, and an
  eigensolver stand-in that reports the status \<open>1\<close> exactly when the buffer \<^verbatim>\<open>w\<close> it is
  given starts with that value: it fails for grid point \<open>5\<close> and for no other.
\<close>

definition ex_marked :: Darray where
  "ex_marked = \<lparr>dims = (\<lambda>_. 0)(0 := 8, 1 := 3), data = (\<lambda>i. if i = 15 then 1 else - 4)\<rparr>"

definition ex_failing :: externals where
  "ex_failing =
     (ex_externals 0 ex_dm)
       \<lparr>phonopy_zheev := (\<lambda>w a n uplo. (if w 0 = 1 then 1 else 0, w, a))\<rparr>"

definition ex_grid_address :: "int ptr" where
  "ex_grid_address = (\<lambda>i. i mod 2)"

definition ex_mesh :: "int ptr" where
  "ex_mesh = (\<lambda>_. 2)"

text \<open>
  Stand-ins that let the charge-sum tensor through: the tensor is the constant
  \<open>dielectric_factor * q_cart[0]\<close>, the real part of the dynamical matrix is the tensor when
  one is handed over and is left at zero otherwise, and the eigensolver leaves in \<^verbatim>\<open>w\<close> the
  real parts of the cells of \<^verbatim>\<open>a\<close>. The wavevector \<open>ex_tolerance\<close> is \<open>(1e-10, 0, 0)\<close>. With
  \<open>ex_gamma_address\<close>, grid point \<open>0\<close> is the zero wavevector.
\<close>

definition ex_sensitive :: externals where
  "ex_sensitive =
     \<lparr>get_charge_sum = (\<lambda>num_patom factor q_cart born. (\<lambda>_. factor * q_cart 0)),
      get_dynamical_matrix_at_q =
        (\<lambda>dm_real dm_imag num_patom num_satom fc q svecs multi mass s2p p2s charge_sum.
           case charge_sum of None \<Rightarrow> (dm_real, dm_imag) | Some tensor \<Rightarrow> (tensor, dm_imag)),
      phonopy_zheev = (\<lambda>w a n uplo. (0, (\<lambda>i. Re (a i)), a))\<rparr>"

definition ex_tolerance :: "real ptr" where
  "ex_tolerance = (\<lambda>i. if i = 0 then 1 / 10 ^ 10 else 0)"

definition ex_gamma_address :: "int ptr" where
  "ex_gamma_address = (\<lambda>i. if i < 3 then 0 else 1)"

definition ex_batch ::
  "externals \<Rightarrow> Darray \<Rightarrow> Carray \<Rightarrow> cchar ptr \<Rightarrow> Iarray \<Rightarrow> real ptr option \<Rightarrow>
   real ptr option \<Rightarrow> Darray \<times> Carray \<times> cchar ptr" where
  "ex_batch E frequencies eigenvectors phonon_done grid_points born q_direction =
     set_phonons_at_gridpoints E frequencies eigenvectors phonon_done grid_points
       ex_grid_address ex_mesh ex_table ex_table ex_multi (data ex_table) ex_zeros ex_zeros 1
       born ex_identity ex_identity q_direction 1 85"

section \<open>The scheduler\<close>


lemma upto_0_2: "[0..2::int] = [0, 1, 2]"
  by (simp add: upto_rec1)

lemma collect_step_undone: "d g = 0 \<Longrightarrow> collect_step g (u, d) = (u @ [g], d(g := 1))"
  by (simp add: collect_step_def)

lemma collect_step_done: "d g \<noteq> 0 \<Longrightarrow> collect_step g (u, d) = (u, d)"
  by (simp add: collect_step_def)

lemma collect_fold_done:
  "snd (fold collect_step gps (u, d)) x = (if x \<in> set gps \<and> d x = 0 then 1 else d x)"
proof (induction gps arbitrary: u d)
  case Nil
  then show ?case by simp
next
  case (Cons g gps)
  show ?case
  proof (cases "d g = 0")
    case True
    have "snd (fold collect_step (g # gps) (u, d)) x =
          snd (fold collect_step gps (u @ [g], d(g := 1))) x"
      using True by (simp add: collect_step_undone)
    also have "\<dots> = (if x \<in> set gps \<and> (d(g := 1)) x = 0 then 1 else (d(g := 1)) x)"
      by (rule Cons.IH)
    also have "\<dots> = (if x \<in> set (g # gps) \<and> d x = 0 then 1 else d x)"
      using True by auto
    finally show ?thesis .
  next
    case False
    have "snd (fold collect_step (g # gps) (u, d)) x = snd (fold collect_step gps (u, d)) x"
      using False by (simp add: collect_step_done)
    also have "\<dots> = (if x \<in> set gps \<and> d x = 0 then 1 else d x)"
      by (rule Cons.IH)
    also have "\<dots> = (if x \<in> set (g # gps) \<and> d x = 0 then 1 else d x)"
      using False by auto
    finally show ?thesis .
  qed
qed

lemma collect_fold_set:
  "set (fst (fold collect_step gps (u, d))) = set u \<union> {g \<in> set gps. d g = 0}"
proof (induction gps arbitrary: u d)
  case Nil
  then show ?case by simp
next
  case (Cons g gps)
  show ?case
  proof (cases "d g = 0")
    case True
    have "set (fst (fold collect_step (g # gps) (u, d))) =
          set (fst (fold collect_step gps (u @ [g], d(g := 1))))"
      using True by (simp add: collect_step_undone)
    also have "\<dots> = set (u @ [g]) \<union> {x \<in> set gps. (d(g := 1)) x = 0}"
      by (rule Cons.IH)
    also have "\<dots> = set u \<union> {x \<in> set (g # gps). d x = 0}"
      using True by auto
    finally show ?thesis .
  next
    case False
    have "set (fst (fold collect_step (g # gps) (u, d))) =
          set (fst (fold collect_step gps (u, d)))"
      using False by (simp add: collect_step_done)
    also have "\<dots> = set u \<union> {x \<in> set gps. d x = 0}"
      by (rule Cons.IH)
    also have "\<dots> = set u \<union> {x \<in> set (g # gps). d x = 0}"
      using False by auto
    finally show ?thesis .
  qed
qed

lemma collect_fold_distinct:
  "distinct u \<Longrightarrow> \<forall>x \<in> set u. d x \<noteq> 0 \<Longrightarrow> distinct (fst (fold collect_step gps (u, d)))"
proof (induction gps arbitrary: u d)
  case Nil
  then show ?case by simp
next
  case (Cons g gps)
  show ?case
  proof (cases "d g = 0")
    case True
    have "distinct (u @ [g])" using Cons.prems True by auto
    moreover have "\<forall>x \<in> set (u @ [g]). (d(g := 1)) x \<noteq> 0" using Cons.prems by auto
    ultimately have "distinct (fst (fold collect_step gps (u @ [g], d(g := 1))))"
      by (rule Cons.IH)
    then show ?thesis using True by (simp add: collect_step_undone)
  next
    case False
    have "distinct (fst (fold collect_step gps (u, d)))"
      using Cons.prems by (intro Cons.IH)
    then show ?thesis using False by (simp add: collect_step_done)
  qed
qed

lemma collect_fold_all_done:
  "\<forall>g \<in> set gps. d g \<noteq> 0 \<Longrightarrow> fold collect_step gps (u, d) = (u, d)"
  by (induction gps) (simp_all add: collect_step_done)

lemma count_list_distinct: "distinct xs \<Longrightarrow> x \<in> set xs \<Longrightarrow> count_list xs x = 1"
  by (induction xs) auto

lemma collect_undone_grid_points_fold:
  "collect_undone_grid_points phonon_done n grid_points =
     fold collect_step (map grid_points [0..n - 1]) ([], phonon_done)"
  by (simp add: collect_undone_grid_points_def fold_map comp_def)

lemma get_undone_phonons_Nil:
  "get_undone_phonons E frequencies eigenvectors [] grid_address mesh fc2 svecs_fc2 multi_fc2
     masses_fc2 p2s_fc2 s2p_fc2 unit_conversion_factor born dielectric reciprocal_lattice
     q_direction nac_factor uplo = (frequencies, eigenvectors)"
  by (simp add: get_undone_phonons_def)

text \<open>
  Claim C1. In a batch call of \<^verbatim>\<open>set_phonons_at_gridpoints\<close>, a requested grid point whose
  flag in \<^verbatim>\<open>phonon_done\<close> is already nonzero is skipped and its flag is left as it is; a
  requested point whose flag is zero is stored exactly once in the list of undone points,
  however often it is requested; the solver loop runs over exactly that list; after the
  call the flag of every requested point is nonzero; and a second call with the same
  request on the resulting buffers changes neither the frequencies, nor the eigenvectors,
  nor the flags.
\<close>

theorem undone_point_caching_law:
  assumes collect:
    "collect_undone_grid_points phonon_done (dims grid_points 0) (data grid_points) =
       (undone, marked)"
  and batch:
    "set_phonons_at_gridpoints E frequencies eigenvectors phonon_done grid_points grid_address
       mesh fc2 svecs_fc2 multi_fc2 masses_fc2 p2s_fc2 s2p_fc2 unit_conversion_factor born
       dielectric reciprocal_lattice q_direction nac_factor uplo =
       (frequencies', eigenvectors', phonon_done')"
  shows
    "(\<forall>i \<in> {0..<dims grid_points 0}.
        phonon_done (data grid_points i) \<noteq> 0 \<longrightarrow>
          data grid_points i \<notin> set undone \<and>
          phonon_done' (data grid_points i) = phonon_done (data grid_points i)) \<and>
     (\<forall>i \<in> {0..<dims grid_points 0}.
        phonon_done (data grid_points i) = 0 \<longrightarrow>
          count_list undone (data grid_points i) = 1) \<and>
     distinct undone \<and>
     set undone \<subseteq> data grid_points ` {0..<dims grid_points 0} \<and>
     (frequencies', eigenvectors') =
       get_undone_phonons E frequencies eigenvectors undone grid_address mesh fc2 svecs_fc2
         multi_fc2 masses_fc2 p2s_fc2 s2p_fc2 unit_conversion_factor born dielectric
         reciprocal_lattice q_direction nac_factor uplo \<and>
     (\<forall>i \<in> {0..<dims grid_points 0}. phonon_done' (data grid_points i) \<noteq> 0) \<and>
     set_phonons_at_gridpoints E frequencies' eigenvectors' phonon_done' grid_points grid_address
       mesh fc2 svecs_fc2 multi_fc2 masses_fc2 p2s_fc2 s2p_fc2 unit_conversion_factor born
       dielectric reciprocal_lattice q_direction nac_factor uplo =
       (frequencies', eigenvectors', phonon_done')"
proof -
  define gps where "gps = map (data grid_points) [0..dims grid_points 0 - 1]"
  have req: "set gps = data grid_points ` {0..<dims grid_points 0}"
    by (auto simp: gps_def)
  have run: "fold collect_step gps ([], phonon_done) = (undone, marked)"
    using collect by (simp add: collect_undone_grid_points_fold gps_def)
  have undone_set: "set undone = {g \<in> set gps. phonon_done g = 0}"
    using collect_fold_set [of gps "[]" phonon_done] run by simp
  have undone_distinct: "distinct undone"
    using collect_fold_distinct [of "[]" phonon_done gps] run by simp
  have marked: "marked x = (if x \<in> set gps \<and> phonon_done x = 0 then 1 else phonon_done x)"
    for x
    using collect_fold_done [of gps "[]" phonon_done x] run by simp
  have same: "phonon_done' = marked"
    and solved: "(frequencies', eigenvectors') =
       get_undone_phonons E frequencies eigenvectors undone grid_address mesh fc2 svecs_fc2
         multi_fc2 masses_fc2 p2s_fc2 s2p_fc2 unit_conversion_factor born dielectric
         reciprocal_lattice q_direction nac_factor uplo"
    using batch collect by (auto simp: set_phonons_at_gridpoints_def split: prod.splits)
  have all_done: "\<forall>g \<in> set gps. marked g \<noteq> 0"
    by (simp add: marked)
  have again: "collect_undone_grid_points marked (dims grid_points 0) (data grid_points) =
      ([], marked)"
    using collect_fold_all_done [OF all_done, of "[]"]
    by (simp add: collect_undone_grid_points_fold gps_def)
  have skipped: "\<forall>i \<in> {0..<dims grid_points 0}.
        phonon_done (data grid_points i) \<noteq> 0 \<longrightarrow>
          data grid_points i \<notin> set undone \<and>
          phonon_done' (data grid_points i) = phonon_done (data grid_points i)"
    by (simp add: undone_set same marked)
  have once: "\<forall>i \<in> {0..<dims grid_points 0}.
        phonon_done (data grid_points i) = 0 \<longrightarrow>
          count_list undone (data grid_points i) = 1"
  proof (intro ballI impI)
    fix i assume "i \<in> {0..<dims grid_points 0}" and "phonon_done (data grid_points i) = 0"
    then have "data grid_points i \<in> set undone"
      unfolding undone_set req by blast
    then show "count_list undone (data grid_points i) = 1"
      using undone_distinct by (rule count_list_distinct [rotated])
  qed
  have within: "set undone \<subseteq> data grid_points ` {0..<dims grid_points 0}"
    unfolding undone_set req by blast
  have flags: "\<forall>i \<in> {0..<dims grid_points 0}. phonon_done' (data grid_points i) \<noteq> 0"
    using all_done unfolding same req by blast
  have idem: "set_phonons_at_gridpoints E frequencies' eigenvectors' phonon_done' grid_points
       grid_address mesh fc2 svecs_fc2 multi_fc2 masses_fc2 p2s_fc2 s2p_fc2
       unit_conversion_factor born dielectric reciprocal_lattice q_direction nac_factor uplo =
       (frequencies', eigenvectors', phonon_done')"
    by (simp add: set_phonons_at_gridpoints_def same again get_undone_phonons_Nil)
  from skipped once undone_distinct within solved flags idem show ?thesis
    by (intro conjI)
qed

text \<open>
  The request \<open>[5, 5, 7]\<close> on a cache with no point done: the points selected are
  \<open>[5, 7]\<close>, both are flagged afterwards, and the second call is the identity.
\<close>

theorem undone_point_caching_law_witness:
  "collect_undone_grid_points (\<lambda>_. 0) (dims ex_grid_points 0) (data ex_grid_points) =
     ([5, 7], (\<lambda>_. 0)(5 := 1, 7 := 1)) \<and>
   (case ex_batch (ex_externals 0 ex_dm) ex_frequencies ex_eigenvectors (\<lambda>_. 0) ex_grid_points
           None None of
      (frequencies', eigenvectors', phonon_done') \<Rightarrow>
        phonon_done' 5 \<noteq> 0 \<and> phonon_done' 7 \<noteq> 0 \<and>
        ex_batch (ex_externals 0 ex_dm) frequencies' eigenvectors' phonon_done' ex_grid_points
          None None = (frequencies', eigenvectors', phonon_done'))"
proof -
  obtain frequencies' eigenvectors' phonon_done' where
    b: "ex_batch (ex_externals 0 ex_dm) ex_frequencies ex_eigenvectors (\<lambda>_. 0) ex_grid_points
          None None = (frequencies', eigenvectors', phonon_done')"
    by (cases "ex_batch (ex_externals 0 ex_dm) ex_frequencies ex_eigenvectors (\<lambda>_. 0)
          ex_grid_points None None") blast
  have c: "collect_undone_grid_points (\<lambda>_. 0) (dims ex_grid_points 0) (data ex_grid_points) =
     ([5, 7], (\<lambda>_. 0)(5 := 1, 7 := 1))"
    by (simp add: collect_undone_grid_points_def collect_step_def ex_grid_points_def upto_0_2)
  note law = undone_point_caching_law [OF c b [unfolded ex_batch_def]]
  note flags = law [THEN conjunct2, THEN conjunct2, THEN conjunct2, THEN conjunct2,
    THEN conjunct2, THEN conjunct1]
  note idem = law [THEN conjunct2, THEN conjunct2, THEN conjunct2, THEN conjunct2,
    THEN conjunct2, THEN conjunct2]
  have five: "phonon_done' 5 \<noteq> 0"
    using flags [THEN bspec, of 0] by (simp add: ex_grid_points_def)
  have seven: "phonon_done' 7 \<noteq> 0"
    using flags [THEN bspec, of 2] by (simp add: ex_grid_points_def)
  have "ex_batch (ex_externals 0 ex_dm) frequencies' eigenvectors' phonon_done' ex_grid_points
          None None = (frequencies', eigenvectors', phonon_done')"
    unfolding ex_batch_def by (rule idem)
  with c five seven show ?thesis
    by (simp only: b prod.case simp_thms)
qed

section \<open>Hermitization\<close>


lemma fold_upd_other:
  "k \<notin> f ` set js \<Longrightarrow> fold (\<lambda>j a. a(f j := g j)) js a k = a k"
  by (induction js arbitrary: a) auto

lemma fold_upd_hit:
  "inj_on f (set js) \<Longrightarrow> distinct js \<Longrightarrow> j \<in> set js \<Longrightarrow>
   fold (\<lambda>j a. a(f j := g j)) js a (f j) = g j"
proof (induction js arbitrary: a)
  case Nil
  then show ?case by simp
next
  case (Cons x xs)
  show ?case
  proof (cases "j = x")
    case True
    have "f x \<notin> f ` set xs"
      using Cons.prems(1,2) by (auto simp: inj_on_def)
    then have "fold (\<lambda>j a. a(f j := g j)) xs (a(f x := g x)) (f x) = (a(f x := g x)) (f x)"
      by (rule fold_upd_other)
    then show ?thesis unfolding True by (simp only: fold_simps comp_apply fun_upd_same)
  next
    case False
    then have "j \<in> set xs" using Cons.prems(3) by simp
    moreover have "inj_on f (set xs)" "distinct xs"
      using Cons.prems(1,2) by (auto simp: inj_on_def)
    ultimately have "fold (\<lambda>j a. a(f j := g j)) xs (a(f x := g x)) (f j) = g j"
      by (intro Cons.IH)
    then show ?thesis by (simp only: fold_simps comp_apply)
  qed
qed

lemma fold_nested_product:
  "fold (\<lambda>i a. fold (\<lambda>j a. F i j a) js a) is a =
   fold (\<lambda>p a. F (fst p) (snd p) a) (List.product is js) a"
  by (induction "is" arbitrary: a) (simp_all add: fold_map comp_def)

lemma index_inj:
  fixes n :: int
  assumes "0 \<le> j" "j < n" "0 \<le> j'" "j' < n" "i * n + j = i' * n + j'"
  shows "i = i' \<and> j = j'"
proof -
  have "(i * n + j) div n = i" using assms(1,2) by simp
  moreover have "(i' * n + j') div n = i'" using assms(3,4) by simp
  ultimately have "i = i'" using assms(5) by simp
  then show ?thesis using assms(5) by simp
qed

lemma hermitize_entry:
  assumes "0 \<le> i" "i < num_patom * 3" "0 \<le> j" "j < num_patom * 3"
  shows "hermitize dm_real dm_imag num_patom a (i * num_patom * 3 + j) =
     Complex ((dm_real (i * num_patom * 3 + j) + dm_real (j * num_patom * 3 + i)) / 2)
             ((dm_imag (i * num_patom * 3 + j) - dm_imag (j * num_patom * 3 + i)) / 2)"
proof -
  define n where "n = num_patom * 3"
  define f where "f = (\<lambda>p :: int \<times> int. fst p * num_patom * 3 + snd p)"
  define g where "g = (\<lambda>p :: int \<times> int.
     Complex ((dm_real (fst p * num_patom * 3 + snd p) + dm_real (snd p * num_patom * 3 + fst p)) / 2)
             ((dm_imag (fst p * num_patom * 3 + snd p) - dm_imag (snd p * num_patom * 3 + fst p)) / 2))"
  define ps where "ps = List.product [0..n - 1] [0..n - 1]"
  have herm: "hermitize dm_real dm_imag num_patom a = fold (\<lambda>p a. a(f p := g p)) ps a"
    unfolding hermitize_def f_def g_def ps_def n_def
    by (rule fold_nested_product)
  have inj: "inj_on f (set ps)"
  proof (rule inj_onI)
    fix p p' assume "p \<in> set ps" "p' \<in> set ps" "f p = f p'"
    then have "fst p * n + snd p = fst p' * n + snd p'"
      and "0 \<le> snd p" "snd p < n" "0 \<le> snd p'" "snd p' < n"
      by (auto simp: f_def ps_def n_def mult.assoc)
    then have "fst p = fst p' \<and> snd p = snd p'"
      using index_inj [of "snd p" n "snd p'" "fst p" "fst p'"] by simp
    then show "p = p'" by (simp add: prod_eq_iff)
  qed
  have dist: "distinct ps"
    by (simp add: ps_def distinct_product)
  have mem: "(i, j) \<in> set ps"
    using assms by (simp add: ps_def n_def)
  have "fold (\<lambda>p a. a(f p := g p)) ps a (f (i, j)) = g (i, j)"
    using inj dist mem by (rule fold_upd_hit)
  then show ?thesis
    by (simp add: herm f_def g_def)
qed

lemma get_phonons_unfold:
  assumes "get_dynamical_matrix_at_q E (\<lambda>_. 0) (\<lambda>_. 0) (dims multi 1) (dims multi 0) (data fc2) q
       (data svecs) (data multi) masses s2p p2s
       (nac_charge_sum E (dims multi 1) (dims multi 0) q born dielectric reciprocal_lattice
          q_direction nac_factor) = (dm_real, dm_imag)"
  shows "get_phonons E a w q fc2 masses p2s s2p multi svecs born dielectric reciprocal_lattice
       q_direction nac_factor unit_conversion_factor uplo =
     (case phonopy_zheev E w (hermitize dm_real dm_imag (dims multi 1) a) (dims multi 1 * 3) uplo of
        (info, w2, a2) \<Rightarrow>
          (info, convert_frequencies unit_conversion_factor (dims multi 1 * 3) w2, a2))"
  using assms by (simp add: get_phonons_def Let_def)

text \<open>
  Claim C2. Let \<open>dm_real\<close> and \<open>dm_imag\<close> be the real and the imaginary part of the
  dynamical matrix that \<^verbatim>\<open>get_phonons\<close> has assembled, of dimension \<open>n = 3 * num_patom\<close>.
  The matrix handed to the eigensolver has, at every index pair \<open>(i, j)\<close>, the real part
  \<open>(dm_real[i,j] + dm_real[j,i]) / 2\<close> and the imaginary part
  \<open>(dm_imag[i,j] - dm_imag[j,i]) / 2\<close>, which is \<open>(D[i,j] + conj (D[j,i])) / 2\<close>, and it
  equals its own conjugate transpose.
\<close>

theorem hermitized_matrix:
  assumes dm: "get_dynamical_matrix_at_q E (\<lambda>_. 0) (\<lambda>_. 0) (dims multi 1) (dims multi 0) (data fc2) q
       (data svecs) (data multi) masses s2p p2s
       (nac_charge_sum E (dims multi 1) (dims multi 0) q born dielectric reciprocal_lattice
          q_direction nac_factor) = (dm_real, dm_imag)"
    and n: "n = dims multi 1 * 3"
    and herm: "herm = hermitize dm_real dm_imag (dims multi 1) a"
    and i: "0 \<le> i" "i < n" and j: "0 \<le> j" "j < n"
  shows
    "get_phonons E a w q fc2 masses p2s s2p multi svecs born dielectric reciprocal_lattice
       q_direction nac_factor unit_conversion_factor uplo =
       (case phonopy_zheev E w herm n uplo of
          (info, w2, a2) \<Rightarrow> (info, convert_frequencies unit_conversion_factor n w2, a2)) \<and>
     herm (i * n + j) =
       Complex ((dm_real (i * n + j) + dm_real (j * n + i)) / 2)
               ((dm_imag (i * n + j) - dm_imag (j * n + i)) / 2) \<and>
     herm (i * n + j) =
       (Complex (dm_real (i * n + j)) (dm_imag (i * n + j)) +
        cnj (Complex (dm_real (j * n + i)) (dm_imag (j * n + i)))) / 2 \<and>
     herm (i * n + j) = cnj (herm (j * n + i))"
proof -
  have call: "get_phonons E a w q fc2 masses p2s s2p multi svecs born dielectric
       reciprocal_lattice q_direction nac_factor unit_conversion_factor uplo =
       (case phonopy_zheev E w herm n uplo of
          (info, w2, a2) \<Rightarrow> (info, convert_frequencies unit_conversion_factor n w2, a2))"
    unfolding n herm using dm by (rule get_phonons_unfold)
  have ix: "k * n + l = k * dims multi 1 * 3 + l" for k l
    by (simp add: n)
  have ij: "herm (i * n + j) =
       Complex ((dm_real (i * n + j) + dm_real (j * n + i)) / 2)
               ((dm_imag (i * n + j) - dm_imag (j * n + i)) / 2)"
    unfolding herm ix using i j unfolding n by (rule hermitize_entry)
  have ji: "herm (j * n + i) =
       Complex ((dm_real (j * n + i) + dm_real (i * n + j)) / 2)
               ((dm_imag (j * n + i) - dm_imag (i * n + j)) / 2)"
    unfolding herm ix using j i unfolding n by (rule hermitize_entry)
  have avg: "herm (i * n + j) =
       (Complex (dm_real (i * n + j)) (dm_imag (i * n + j)) +
        cnj (Complex (dm_real (j * n + i)) (dm_imag (j * n + i)))) / 2"
    unfolding ij by (simp add: complex_eq_iff)
  have sym: "herm (i * n + j) = cnj (herm (j * n + i))"
    unfolding ij ji by (simp add: complex_eq_iff field_simps)
  from call ij avg sym show ?thesis by (intro conjI)
qed

text \<open>
  For one primitive atom and the matrix with \<open>dm_real[k] = k\<close> and \<open>dm_imag[k] = k * k\<close>:
  the entry \<open>(0, 1)\<close> is \<open>2 - 4\<i>\<close>, the conjugate of the entry \<open>(1, 0)\<close>.
\<close>

theorem hermitized_matrix_witness:
  "hermitize (fst ex_dm) (snd ex_dm) (dims ex_multi 1) (\<lambda>_. 0) 1 = Complex 2 (- 4) \<and>
   hermitize (fst ex_dm) (snd ex_dm) (dims ex_multi 1) (\<lambda>_. 0) 1 =
     cnj (hermitize (fst ex_dm) (snd ex_dm) (dims ex_multi 1) (\<lambda>_. 0) 3)"
proof -
  have dm: "get_dynamical_matrix_at_q (ex_externals 0 ex_dm) (\<lambda>_. 0) (\<lambda>_. 0) (dims ex_multi 1)
       (dims ex_multi 0) (data ex_table) (\<lambda>_. 0) (data ex_table) (data ex_multi) (\<lambda>_. 1)
       (\<lambda>_. 0) (\<lambda>_. 0)
       (nac_charge_sum (ex_externals 0 ex_dm) (dims ex_multi 1) (dims ex_multi 0) (\<lambda>_. 0) None
          ex_identity ex_identity None 1) = (fst ex_dm, snd ex_dm)"
    by (simp add: ex_externals_def)
  have n: "(3::int) = dims ex_multi 1 * 3"
    by (simp add: ex_multi_def)
  have b: "(0::int) \<le> 0" "(0::int) < 3" "(0::int) \<le> 1" "(1::int) < 3"
    by simp_all
  note law = hermitized_matrix [OF dm n refl b, of "\<lambda>_. 0" "\<lambda>_. 0" 1 85]
  have e: "hermitize (fst ex_dm) (snd ex_dm) (dims ex_multi 1) (\<lambda>_. 0) 1 = Complex 2 (- 4)"
    using law [THEN conjunct2, THEN conjunct1] by (simp add: ex_dm_def)
  have h: "hermitize (fst ex_dm) (snd ex_dm) (dims ex_multi 1) (\<lambda>_. 0) 1 =
     cnj (hermitize (fst ex_dm) (snd ex_dm) (dims ex_multi 1) (\<lambda>_. 0) 3)"
    using law [THEN conjunct2, THEN conjunct2, THEN conjunct2] by simp
  from e h show ?thesis by (rule conjI)
qed

section \<open>Frequencies from eigenvalues\<close>


lemma fold_self_upd:
  "distinct js \<Longrightarrow>
   fold (\<lambda>j w. w(j := h (w j))) js w k = (if k \<in> set js then h (w k) else w k)"
proof (induction js arbitrary: w)
  case Nil
  then show ?case by simp
next
  case (Cons x xs)
  have "fold (\<lambda>j w. w(j := h (w j))) (x # xs) w k =
        fold (\<lambda>j w. w(j := h (w j))) xs (w(x := h (w x))) k"
    by (simp only: fold_simps comp_apply)
  also have "\<dots> = (if k \<in> set xs then h ((w(x := h (w x))) k) else (w(x := h (w x))) k)"
    using Cons.prems by (intro Cons.IH) simp
  also have "\<dots> = (if k \<in> set (x # xs) then h (w k) else w k)"
    using Cons.prems by auto
  finally show ?case .
qed

lemma convert_frequencies_entry:
  "convert_frequencies unit_conversion_factor n w k =
     (if 0 \<le> k \<and> k < n then frequency_of unit_conversion_factor (w k) else w k)"
  unfolding convert_frequencies_def
  by (subst fold_self_upd) auto

lemma frequency_of_sgn:
  "frequency_of unit_conversion_factor x = sgn x * sqrt \<bar>x\<bar> * unit_conversion_factor"
  by (simp add: frequency_of_def sgn_real_def)

lemma frequency_of_sqrt:
  "frequency_of unit_conversion_factor x = sqrt x * unit_conversion_factor"
  by (simp add: frequency_of_def real_sqrt_minus abs_real_def)

lemma frequency_of_mono:
  "0 \<le> unit_conversion_factor \<Longrightarrow> x \<le> y \<Longrightarrow>
   frequency_of unit_conversion_factor x \<le> frequency_of unit_conversion_factor y"
  by (simp add: frequency_of_sqrt mult_right_mono)

lemma frequency_of_neg:
  "0 < unit_conversion_factor \<Longrightarrow> x < 0 \<Longrightarrow> frequency_of unit_conversion_factor x < 0"
  by (simp add: frequency_of_sqrt mult_neg_pos)

lemma get_phonons_frequencies:
  assumes dm: "get_dynamical_matrix_at_q E (\<lambda>_. 0) (\<lambda>_. 0) (dims multi 1) (dims multi 0) (data fc2) q
       (data svecs) (data multi) masses s2p p2s
       (nac_charge_sum E (dims multi 1) (dims multi 0) q born dielectric reciprocal_lattice
          q_direction nac_factor) = (dm_real, dm_imag)"
    and z: "phonopy_zheev E w (hermitize dm_real dm_imag (dims multi 1) a) (dims multi 1 * 3) uplo =
       (info, eigenvalues, a2)"
  shows "get_phonons E a w q fc2 masses p2s s2p multi svecs born dielectric reciprocal_lattice
       q_direction nac_factor unit_conversion_factor uplo =
     (info, convert_frequencies unit_conversion_factor (dims multi 1 * 3) eigenvalues, a2)"
  by (simp add: get_phonons_unfold [OF dm] z)

text \<open>
  Claim C3, amended. For every eigenvalue \<open>\<lambda>\<close> that the eigensolver leaves in \<^verbatim>\<open>w\<close>, the
  frequency that \<^verbatim>\<open>get_phonons\<close> reports is \<open>sign \<lambda> * sqrt \<bar>\<lambda>\<bar> * unit_conversion_factor\<close>,
  which is \<open>0\<close> for \<open>\<lambda> = 0\<close>. For a positive \<open>unit_conversion_factor\<close>, a negative
  eigenvalue gives a negative frequency, the conversion is monotone, and ascending
  eigenvalues give ascending frequencies.
\<close>

theorem signed_frequency_conversion:
  assumes dm: "get_dynamical_matrix_at_q E (\<lambda>_. 0) (\<lambda>_. 0) (dims multi 1) (dims multi 0) (data fc2) q
       (data svecs) (data multi) masses s2p p2s
       (nac_charge_sum E (dims multi 1) (dims multi 0) q born dielectric reciprocal_lattice
          q_direction nac_factor) = (dm_real, dm_imag)"
    and z: "phonopy_zheev E w (hermitize dm_real dm_imag (dims multi 1) a) (dims multi 1 * 3) uplo =
       (info, eigenvalues, a2)"
    and res: "get_phonons E a w q fc2 masses p2s s2p multi svecs born dielectric
       reciprocal_lattice q_direction nac_factor unit_conversion_factor uplo =
       (info', frequencies, a')"
  shows
    "(\<forall>k \<in> {0..<dims multi 1 * 3}.
        frequencies k =
          sgn (eigenvalues k) * sqrt \<bar>eigenvalues k\<bar> * unit_conversion_factor \<and>
        (eigenvalues k = 0 \<longrightarrow> frequencies k = 0)) \<and>
     (0 < unit_conversion_factor \<longrightarrow>
        (\<forall>k \<in> {0..<dims multi 1 * 3}. eigenvalues k < 0 \<longrightarrow> frequencies k < 0) \<and>
        (\<forall>k \<in> {0..<dims multi 1 * 3}. \<forall>l \<in> {0..<dims multi 1 * 3}.
           eigenvalues k \<le> eigenvalues l \<longrightarrow> frequencies k \<le> frequencies l) \<and>
        ((\<forall>k \<in> {0..<dims multi 1 * 3}. \<forall>l \<in> {0..<dims multi 1 * 3}.
            k \<le> l \<longrightarrow> eigenvalues k \<le> eigenvalues l) \<longrightarrow>
         (\<forall>k \<in> {0..<dims multi 1 * 3}. \<forall>l \<in> {0..<dims multi 1 * 3}.
            k \<le> l \<longrightarrow> frequencies k \<le> frequencies l)))"
proof -
  have "frequencies = convert_frequencies unit_conversion_factor (dims multi 1 * 3) eigenvalues"
    using res unfolding get_phonons_frequencies [OF dm z] by simp
  then have freq: "frequencies k = frequency_of unit_conversion_factor (eigenvalues k)"
    if "k \<in> {0..<dims multi 1 * 3}" for k
    using that by (simp add: convert_frequencies_entry)
  have formula: "\<forall>k \<in> {0..<dims multi 1 * 3}.
        frequencies k =
          sgn (eigenvalues k) * sqrt \<bar>eigenvalues k\<bar> * unit_conversion_factor \<and>
        (eigenvalues k = 0 \<longrightarrow> frequencies k = 0)"
    by (simp add: freq frequency_of_sgn)
  have neg: "\<forall>k \<in> {0..<dims multi 1 * 3}. eigenvalues k < 0 \<longrightarrow> frequencies k < 0"
    if "0 < unit_conversion_factor"
    using that by (simp add: freq frequency_of_neg)
  have mono: "\<forall>k \<in> {0..<dims multi 1 * 3}. \<forall>l \<in> {0..<dims multi 1 * 3}.
           eigenvalues k \<le> eigenvalues l \<longrightarrow> frequencies k \<le> frequencies l"
    if "0 < unit_conversion_factor"
    using that by (simp add: freq frequency_of_mono)
  have sorted: "(\<forall>k \<in> {0..<dims multi 1 * 3}. \<forall>l \<in> {0..<dims multi 1 * 3}.
            k \<le> l \<longrightarrow> eigenvalues k \<le> eigenvalues l) \<longrightarrow>
         (\<forall>k \<in> {0..<dims multi 1 * 3}. \<forall>l \<in> {0..<dims multi 1 * 3}.
            k \<le> l \<longrightarrow> frequencies k \<le> frequencies l)"
    if "0 < unit_conversion_factor"
    using mono [OF that] by blast
  from formula neg mono sorted show ?thesis by blast
qed

text \<open>
  With the factor \<open>1\<close>, the eigenvalue \<open>- 4\<close> is reported as the frequency \<open>- 2\<close>.
\<close>

theorem signed_frequency_conversion_witness:
  "fst (snd (phonopy_zheev (ex_externals 0 ex_dm) (data ex_frequencies)
       (hermitize (fst ex_dm) (snd ex_dm) (dims ex_multi 1) (data ex_eigenvectors))
       (dims ex_multi 1 * 3) 85)) 0 = - 4 \<and>
   fst (snd (get_phonons (ex_externals 0 ex_dm) (data ex_eigenvectors) (data ex_frequencies)
       ex_direction ex_table (data ex_table) ex_zeros ex_zeros ex_multi ex_table None ex_identity
       ex_identity None 1 1 85)) 0 = - 2"
proof -
  define G where "G = get_phonons (ex_externals 0 ex_dm) (data ex_eigenvectors)
       (data ex_frequencies) ex_direction ex_table (data ex_table) ex_zeros ex_zeros ex_multi
       ex_table None ex_identity ex_identity None 1 1 85"
  have dm: "get_dynamical_matrix_at_q (ex_externals 0 ex_dm) (\<lambda>_. 0) (\<lambda>_. 0) (dims ex_multi 1)
       (dims ex_multi 0) (data ex_table) ex_direction (data ex_table) (data ex_multi)
       (data ex_table) ex_zeros ex_zeros
       (nac_charge_sum (ex_externals 0 ex_dm) (dims ex_multi 1) (dims ex_multi 0) ex_direction
          None ex_identity ex_identity None 1) = (fst ex_dm, snd ex_dm)"
    by (simp add: ex_externals_def)
  have z: "phonopy_zheev (ex_externals 0 ex_dm) (data ex_frequencies)
       (hermitize (fst ex_dm) (snd ex_dm) (dims ex_multi 1) (data ex_eigenvectors))
       (dims ex_multi 1 * 3) 85 =
       (0, data ex_frequencies,
        hermitize (fst ex_dm) (snd ex_dm) (dims ex_multi 1) (data ex_eigenvectors))"
    by (simp add: ex_externals_def)
  have res: "get_phonons (ex_externals 0 ex_dm) (data ex_eigenvectors)
       (data ex_frequencies) ex_direction ex_table (data ex_table) ex_zeros ex_zeros ex_multi
       ex_table None ex_identity ex_identity None 1 1 85 = (fst G, fst (snd G), snd (snd G))"
    by (simp add: G_def)
  have pos: "(0::real) < 1" by simp
  note law = signed_frequency_conversion [OF dm z res, THEN conjunct2, rule_format, OF pos]
  have k: "(0::int) \<in> {0..<dims ex_multi 1 * 3}" by (simp add: ex_multi_def)
  have e: "data ex_frequencies 0 = - 4" by (simp add: ex_frequencies_def)
  have "fst (snd G) 0 < 0"
    using law [THEN conjunct1, THEN bspec, OF k] e by simp
  moreover have "fst (snd G) 0 = sgn (- 4) * sqrt \<bar>- 4\<bar> * 1"
    using signed_frequency_conversion [OF dm z res, THEN conjunct1, THEN bspec, OF k,
      THEN conjunct1] e by simp
  ultimately show ?thesis
    unfolding z G_def using e by simp
qed

text \<open>
  Claim C3 as stated has no condition on the factor. With \<open>unit_conversion_factor = - 1\<close>
  the negative eigenvalue \<open>- 4\<close> is reported as the positive frequency \<open>2\<close>.
\<close>

theorem negative_factor_counterexample:
  "fst (snd (phonopy_zheev (ex_externals 0 ex_dm) (data ex_frequencies)
       (hermitize (fst ex_dm) (snd ex_dm) (dims ex_multi 1) (data ex_eigenvectors))
       (dims ex_multi 1 * 3) 85)) 0 = - 4 \<and>
   fst (snd (get_phonons (ex_externals 0 ex_dm) (data ex_eigenvectors) (data ex_frequencies)
       ex_direction ex_table (data ex_table) ex_zeros ex_zeros ex_multi ex_table None ex_identity
       ex_identity None 1 (- 1) 85)) 0 = 2"
  by (simp add: get_phonons_def ex_externals_def nac_charge_sum_def convert_frequencies_entry
      frequency_of_def ex_frequencies_def ex_multi_def ex_dm_def)

section \<open>The phase factor\<close>


lemma fold_cos_sin:
  "fold (\<lambda>i (sum_real, sum_imag). (sum_real + c i, sum_imag + s i)) js (x, y) =
     (x + sum_list (map c js), y + sum_list (map s js))"
  by (induction js arbitrary: x y) (simp_all add: algebra_simps)

lemma sum_list_upto: "sum_list (map f [0..m - 1]) = (\<Sum>k = 0..<m. f k)" for m :: int
proof -
  have "sum_list (map f [0..m - 1]) = sum f (set [0..m - 1])"
    by (rule sum_list_distinct_conv_sum_set) simp
  also have "set [0..m - 1] = {0..<m}"
    by auto
  finally show ?thesis .
qed

lemma phase_loop:
  "fold (\<lambda>j phase. phase + q (qi * 3 + j) * svecs (i * 3 + j)) [0..2] (0::real) =
     (\<Sum>j = 0..<3. q (qi * 3 + j) * svecs (i * 3 + j))"
proof -
  have "{0..<3::int} = {0, 1, 2}" by auto
  then show ?thesis by (simp add: upto_0_2)
qed

lemma get_phase_factor_sums:
  "get_phase_factor q shortest_vectors multiplicity pi0 si qi =
     Complex
       ((\<Sum>k = 0..<data multiplicity (si * dims multiplicity 1 + pi0).
           cos (2 * pi * (\<Sum>j = 0..<3. q (qi * 3 + j) *
             data shortest_vectors
               (si * dims shortest_vectors 1 * dims shortest_vectors 2 * 3 +
                pi0 * dims shortest_vectors 2 * 3 + (k * 3 + j))))) /
        real_of_int (data multiplicity (si * dims multiplicity 1 + pi0)))
       ((\<Sum>k = 0..<data multiplicity (si * dims multiplicity 1 + pi0).
           sin (2 * pi * (\<Sum>j = 0..<3. q (qi * 3 + j) *
             data shortest_vectors
               (si * dims shortest_vectors 1 * dims shortest_vectors 2 * 3 +
                pi0 * dims shortest_vectors 2 * 3 + (k * 3 + j))))) /
        real_of_int (data multiplicity (si * dims multiplicity 1 + pi0)))"
  unfolding get_phase_factor_def Let_def phase_loop M_2PI_def
  by (simp add: fold_cos_sin sum_list_upto shift_def)

lemma complex_average:
  "Complex ((\<Sum>k \<in> A. cos (t k)) / real_of_int m) ((\<Sum>k \<in> A. sin (t k)) / real_of_int m) =
     (\<Sum>k \<in> A. exp (\<i> * complex_of_real (t k))) / of_int m"
proof -
  have e: "(\<Sum>k \<in> A. exp (\<i> * complex_of_real (t k))) = (\<Sum>k \<in> A. cis (t k))"
    by (simp add: cis_conv_exp)
  have m: "(of_int m :: complex) = complex_of_real (real_of_int m)"
    by simp
  show ?thesis
    unfolding e m by (simp add: complex_eq_iff)
qed

lemma norm_average:
  assumes "1 \<le> m"
  shows "cmod ((\<Sum>k = 0..<m. exp (\<i> * complex_of_real (t k))) / of_int m) \<le> 1"
proof -
  have "cmod (\<Sum>k = 0..<m. exp (\<i> * complex_of_real (t k))) \<le>
        (\<Sum>k = 0..<m. cmod (exp (\<i> * complex_of_real (t k))))"
    by (rule norm_sum)
  also have "\<dots> = real_of_int m"
    using assms by simp
  finally have "cmod (\<Sum>k = 0..<m. exp (\<i> * complex_of_real (t k))) \<le> real_of_int m" .
  then show ?thesis
    using assms by (simp add: norm_divide field_simps)
qed

lemma norm_single:
  "cmod ((\<Sum>k = 0..<(1::int). exp (\<i> * complex_of_real (t k))) / of_int 1) = 1"
proof -
  have "{0..<1::int} = {0}" by auto
  then show ?thesis by simp
qed

text \<open>
  Claim C8. Let \<open>m \<ge> 1\<close> be the multiplicity of the pair \<open>(si, pi0)\<close> and \<open>v k\<close>, for
  \<open>k = 0, \<dots>, m - 1\<close>, its equivalent shortest vectors. \<^verbatim>\<open>get_phase_factor\<close> returns the
  average \<open>(1 / m) * (\<Sum>k. exp (\<i> * 2\<pi> * (q \<cdot> v k)))\<close>. Its magnitude is \<open>1\<close> for \<open>m = 1\<close> and
  at most \<open>1\<close> for every \<open>m\<close>. (The statement is about exact real arithmetic.)
\<close>

theorem phase_factor_average:
  assumes m: "m = data multiplicity (si * dims multiplicity 1 + pi0)"
    and v: "v = (\<lambda>k j. data shortest_vectors
               (si * dims shortest_vectors 1 * dims shortest_vectors 2 * 3 +
                pi0 * dims shortest_vectors 2 * 3 + (k * 3 + j)))"
    and pos: "1 \<le> m"
  shows
    "get_phase_factor q shortest_vectors multiplicity pi0 si qi =
       (\<Sum>k = 0..<m.
          exp (\<i> * complex_of_real (2 * pi * (\<Sum>j = 0..<3. q (qi * 3 + j) * v k j)))) /
       of_int m \<and>
     (m = 1 \<longrightarrow> cmod (get_phase_factor q shortest_vectors multiplicity pi0 si qi) = 1) \<and>
     cmod (get_phase_factor q shortest_vectors multiplicity pi0 si qi) \<le> 1"
proof -
  have avg: "get_phase_factor q shortest_vectors multiplicity pi0 si qi =
       (\<Sum>k = 0..<m.
          exp (\<i> * complex_of_real (2 * pi * (\<Sum>j = 0..<3. q (qi * 3 + j) * v k j)))) /
       of_int m"
    unfolding get_phase_factor_sums m v by (rule complex_average)
  have le: "cmod (get_phase_factor q shortest_vectors multiplicity pi0 si qi) \<le> 1"
    unfolding avg using pos by (rule norm_average)
  have one: "cmod (get_phase_factor q shortest_vectors multiplicity pi0 si qi) = 1" if "m = 1"
    unfolding avg that by (rule norm_single)
  from avg one le show ?thesis by blast
qed

text \<open>
  A pair of multiplicity one: the phase factor has magnitude one.
\<close>

theorem phase_factor_average_witness:
  "data ex_multi (0 * dims ex_multi 1 + 0) = 1 \<and>
   cmod (get_phase_factor ex_direction ex_table ex_multi 0 0 0) = 1"
proof -
  have m: "(1::int) = data ex_multi (0 * dims ex_multi 1 + 0)"
    by (simp add: ex_multi_def)
  have pos: "(1::int) \<le> 1" by simp
  from phase_factor_average [OF m refl pos, THEN conjunct2, THEN conjunct1] m
  show ?thesis by simp
qed

section \<open>The non-analytic correction\<close>


lemma three: "{0..<3::int} = {0, 1, 2}"
  by auto

lemma to_cartesian_entry:
  assumes "i \<in> {0..<3}"
  shows "to_cartesian reciprocal_lattice v i = (\<Sum>j = 0..<3. reciprocal_lattice (i * 3 + j) * v j)"
proof -
  have "i = 0 \<or> i = 1 \<or> i = 2" using assms by auto
  then show ?thesis
    by (auto simp: to_cartesian_def upto_0_2 three)
qed

lemma inv_dielectric_factor_of_sum:
  "inv_dielectric_factor_of dielectric q_cart =
     (\<Sum>i = 0..<3. \<Sum>j = 0..<3. q_cart i * dielectric (i * 3 + j) * q_cart j)"
  by (simp add: inv_dielectric_factor_of_def upto_0_2 three algebra_simps)

lemma nac_charge_sum_applies:
  assumes "born = Some born_data"
    and "\<not> (\<bar>q 0\<bar> < 1 / 10 ^ 10 \<and> \<bar>q 1\<bar> < 1 / 10 ^ 10 \<and> \<bar>q 2\<bar> < 1 / 10 ^ 10 \<and>
            q_direction = None)"
  shows "nac_charge_sum E num_patom num_satom q born dielectric reciprocal_lattice q_direction
           nac_factor =
         Some (get_charge_sum E num_patom
           (nac_factor /
            inv_dielectric_factor_of dielectric
              (to_cartesian reciprocal_lattice (case q_direction of Some dir \<Rightarrow> dir | None \<Rightarrow> q)) /
            real_of_int num_satom * real_of_int num_patom)
           (to_cartesian reciprocal_lattice (case q_direction of Some dir \<Rightarrow> dir | None \<Rightarrow> q))
           born_data)"
  using assms by (cases q_direction) (simp_all add: nac_charge_sum_def Let_def)

lemma nac_charge_sum_skipped:
  assumes "born = None \<or>
     (\<bar>q 0\<bar> < 1 / 10 ^ 10 \<and> \<bar>q 1\<bar> < 1 / 10 ^ 10 \<and> \<bar>q 2\<bar> < 1 / 10 ^ 10 \<and> q_direction = None)"
  shows "nac_charge_sum E num_patom num_satom q born dielectric reciprocal_lattice q_direction
           nac_factor = None"
  using assms by (cases born) (auto simp: nac_charge_sum_def)

lemma get_phonons_charge_sum:
  assumes "nac_charge_sum E (dims multi 1) (dims multi 0) q born dielectric reciprocal_lattice
       q_direction nac_factor =
     nac_charge_sum E (dims multi 1) (dims multi 0) q born' dielectric' reciprocal_lattice'
       q_direction' nac_factor'"
  shows "get_phonons E a w q fc2 masses p2s s2p multi svecs born dielectric reciprocal_lattice
       q_direction nac_factor unit_conversion_factor uplo =
     get_phonons E a w q fc2 masses p2s s2p multi svecs born' dielectric' reciprocal_lattice'
       q_direction' nac_factor' unit_conversion_factor uplo"
  by (simp add: get_phonons_def assms)

lemma get_phonons_status:
  assumes dm: "get_dynamical_matrix_at_q E (\<lambda>_. 0) (\<lambda>_. 0) (dims multi 1) (dims multi 0) (data fc2) q
       (data svecs) (data multi) masses s2p p2s
       (nac_charge_sum E (dims multi 1) (dims multi 0) q born dielectric reciprocal_lattice
          q_direction nac_factor) = (dm_real, dm_imag)"
  shows "fst (get_phonons E a w q fc2 masses p2s s2p multi svecs born dielectric
       reciprocal_lattice q_direction nac_factor unit_conversion_factor uplo) =
     fst (phonopy_zheev E w (hermitize dm_real dm_imag (dims multi 1) a) (dims multi 1 * 3) uplo)"
  unfolding get_phonons_unfold [OF dm] by (simp split: prod.splits)

lemma ex_sensitive_pipeline:
  "fst (snd (case get_dynamical_matrix_at_q ex_sensitive (\<lambda>_. 0) (\<lambda>_. 0) (dims ex_multi 1)
        num_satom fc q svecs multi masses s2p p2s charge_sum of
      (dm_real, dm_imag) \<Rightarrow>
        (case phonopy_zheev ex_sensitive w (hermitize dm_real dm_imag (dims ex_multi 1) a)
                (dims ex_multi 1 * 3) uplo of
           (info, w2, a2) \<Rightarrow>
             (info, convert_frequencies unit_conversion_factor (dims ex_multi 1 * 3) w2, a2)))) 0 =
   frequency_of unit_conversion_factor (case charge_sum of None \<Rightarrow> 0 | Some tensor \<Rightarrow> tensor 0)"
proof -
  have np: "dims ex_multi 1 = 1"
    by (simp add: ex_multi_def)
  have cell: "hermitize dm_real dm_imag 1 a 0 =
      Complex ((dm_real 0 + dm_real 0) / 2) ((dm_imag 0 - dm_imag 0) / 2)" for dm_real dm_imag
    using hermitize_entry [of 0 1 0 dm_real dm_imag a] by simp
  show ?thesis
    unfolding np
    by (cases charge_sum) (simp_all add: ex_sensitive_def convert_frequencies_entry cell)
qed

lemma get_phonons_run:
  "get_phonons E a w q fc2 masses p2s s2p multi svecs born dielectric reciprocal_lattice
     q_direction nac_factor unit_conversion_factor uplo =
   (case get_dynamical_matrix_at_q E (\<lambda>_. 0) (\<lambda>_. 0) (dims multi 1) (dims multi 0)
           (data fc2) q (data svecs) (data multi) masses s2p p2s
           (nac_charge_sum E (dims multi 1) (dims multi 0) q born dielectric reciprocal_lattice
              q_direction nac_factor) of
      (dm_real, dm_imag) \<Rightarrow>
        (case phonopy_zheev E w (hermitize dm_real dm_imag (dims multi 1) a)
                (dims multi 1 * 3) uplo of
           (info, w2, a2) \<Rightarrow>
             (info, convert_frequencies unit_conversion_factor (dims multi 1 * 3) w2, a2)))"
proof -
  obtain dm_real dm_imag where dm: "get_dynamical_matrix_at_q E (\<lambda>_. 0) (\<lambda>_. 0) (dims multi 1)
      (dims multi 0) (data fc2) q (data svecs) (data multi) masses s2p p2s
      (nac_charge_sum E (dims multi 1) (dims multi 0) q born dielectric reciprocal_lattice
         q_direction nac_factor) = (dm_real, dm_imag)"
    by (meson surj_pair)
  show ?thesis
    unfolding get_phonons_unfold [OF dm] dm by simp
qed

lemma ex_sensitive_frequency:
  "fst (snd (get_phonons ex_sensitive a w q fc2 masses p2s s2p ex_multi svecs born dielectric
       reciprocal_lattice q_direction nac_factor unit_conversion_factor uplo)) 0 =
   frequency_of unit_conversion_factor
     (case nac_charge_sum ex_sensitive (dims ex_multi 1) (dims ex_multi 0) q born dielectric
             reciprocal_lattice q_direction nac_factor of
        None \<Rightarrow> 0 | Some tensor \<Rightarrow> tensor 0)"
  unfolding get_phonons_run by (rule ex_sensitive_pipeline)

lemma ex_q_cart:
  "to_cartesian ex_identity ex_direction 0 = 1"
  "to_cartesian ex_identity ex_direction 1 = 0"
  "to_cartesian ex_identity ex_direction 2 = 0"
  using to_cartesian_entry [of 0 ex_identity ex_direction]
    to_cartesian_entry [of 1 ex_identity ex_direction]
    to_cartesian_entry [of 2 ex_identity ex_direction]
  by (simp_all add: three ex_identity_def ex_direction_def)

lemma ex_inv_dielectric_factor:
  "inv_dielectric_factor_of ex_identity (to_cartesian ex_identity ex_direction) = 1"
proof -
  have e: "ex_identity k = (if k = 0 \<or> k = 4 \<or> k = 8 then 1 else 0)" for k
    by (simp add: ex_identity_def)
  show ?thesis
    by (simp add: inv_dielectric_factor_of_sum three ex_q_cart e)
qed

text \<open>
  Claim C4. The non-analytic correction is included in the dynamical matrix if and only if
  Born charges are supplied and either some component of \<open>q\<close> has an absolute value of at
  least \<open>1e-10\<close> or a limiting direction is supplied. In that case \<^verbatim>\<open>get_phonons\<close> is the
  run of \<^verbatim>\<open>get_dynamical_matrix_at_q\<close>, of the hermitization, of the eigensolver and of the
  conversion in which the matrix builder is handed the tensor that \<^verbatim>\<open>get_charge_sum\<close> builds
  from \<open>dielectric_factor\<close>, \<open>q_cart\<close> and the Born charges. When Born charges are absent,
  or when every component of \<open>q\<close> is below \<open>1e-10\<close> in absolute value and no direction is
  given, no tensor is built, \<^verbatim>\<open>get_phonons\<close> is the same run with \<^verbatim>\<open>NULL\<close> handed to the
  matrix builder, and it computes exactly what it computes without Born charges.
\<close>

theorem nac_applicability:
  assumes q_cart: "q_cart = to_cartesian reciprocal_lattice
                     (case q_direction of Some dir \<Rightarrow> dir | None \<Rightarrow> q)"
    and factor: "dielectric_factor =
       nac_factor / inv_dielectric_factor_of dielectric q_cart / real_of_int (dims multi 0) *
       real_of_int (dims multi 1)"
  shows
    "(nac_charge_sum E (dims multi 1) (dims multi 0) q born dielectric reciprocal_lattice
        q_direction nac_factor \<noteq> None \<longleftrightarrow>
        born \<noteq> None \<and>
        ((1 / 10 ^ 10 \<le> \<bar>q 0\<bar> \<or> 1 / 10 ^ 10 \<le> \<bar>q 1\<bar> \<or> 1 / 10 ^ 10 \<le> \<bar>q 2\<bar>) \<or>
         q_direction \<noteq> None)) \<and>
     (\<forall>born_data.
        born = Some born_data \<and>
        ((1 / 10 ^ 10 \<le> \<bar>q 0\<bar> \<or> 1 / 10 ^ 10 \<le> \<bar>q 1\<bar> \<or> 1 / 10 ^ 10 \<le> \<bar>q 2\<bar>) \<or>
         q_direction \<noteq> None) \<longrightarrow>
        get_phonons E a w q fc2 masses p2s s2p multi svecs born dielectric reciprocal_lattice
          q_direction nac_factor unit_conversion_factor uplo =
        (case get_dynamical_matrix_at_q E (\<lambda>_. 0) (\<lambda>_. 0) (dims multi 1) (dims multi 0)
                (data fc2) q (data svecs) (data multi) masses s2p p2s
                (Some (get_charge_sum E (dims multi 1) dielectric_factor q_cart born_data)) of
           (dm_real, dm_imag) \<Rightarrow>
             (case phonopy_zheev E w (hermitize dm_real dm_imag (dims multi 1) a)
                     (dims multi 1 * 3) uplo of
                (info, w2, a2) \<Rightarrow>
                  (info, convert_frequencies unit_conversion_factor (dims multi 1 * 3) w2,
                   a2)))) \<and>
     (born = None \<or>
      (\<bar>q 0\<bar> < 1 / 10 ^ 10 \<and> \<bar>q 1\<bar> < 1 / 10 ^ 10 \<and> \<bar>q 2\<bar> < 1 / 10 ^ 10 \<and> q_direction = None) \<longrightarrow>
        nac_charge_sum E (dims multi 1) (dims multi 0) q born dielectric reciprocal_lattice
          q_direction nac_factor = None \<and>
        get_phonons E a w q fc2 masses p2s s2p multi svecs born dielectric reciprocal_lattice
          q_direction nac_factor unit_conversion_factor uplo =
        (case get_dynamical_matrix_at_q E (\<lambda>_. 0) (\<lambda>_. 0) (dims multi 1) (dims multi 0)
                (data fc2) q (data svecs) (data multi) masses s2p p2s None of
           (dm_real, dm_imag) \<Rightarrow>
             (case phonopy_zheev E w (hermitize dm_real dm_imag (dims multi 1) a)
                     (dims multi 1 * 3) uplo of
                (info, w2, a2) \<Rightarrow>
                  (info, convert_frequencies unit_conversion_factor (dims multi 1 * 3) w2,
                   a2))) \<and>
        get_phonons E a w q fc2 masses p2s s2p multi svecs born dielectric reciprocal_lattice
          q_direction nac_factor unit_conversion_factor uplo =
        get_phonons E a w q fc2 masses p2s s2p multi svecs None dielectric reciprocal_lattice
          q_direction nac_factor unit_conversion_factor uplo)"
proof -
  let ?skip = "born = None \<or>
    (\<bar>q 0\<bar> < 1 / 10 ^ 10 \<and> \<bar>q 1\<bar> < 1 / 10 ^ 10 \<and> \<bar>q 2\<bar> < 1 / 10 ^ 10 \<and> q_direction = None)"
  let ?applies = "born \<noteq> None \<and>
        ((1 / 10 ^ 10 \<le> \<bar>q 0\<bar> \<or> 1 / 10 ^ 10 \<le> \<bar>q 1\<bar> \<or> 1 / 10 ^ 10 \<le> \<bar>q 2\<bar>) \<or>
         q_direction \<noteq> None)"
  let ?cs = "nac_charge_sum E (dims multi 1) (dims multi 0) q born dielectric reciprocal_lattice
        q_direction nac_factor"
  let ?run = "\<lambda>charge_sum.
        (case get_dynamical_matrix_at_q E (\<lambda>_. 0) (\<lambda>_. 0) (dims multi 1) (dims multi 0)
                (data fc2) q (data svecs) (data multi) masses s2p p2s charge_sum of
           (dm_real, dm_imag) \<Rightarrow>
             (case phonopy_zheev E w (hermitize dm_real dm_imag (dims multi 1) a)
                     (dims multi 1 * 3) uplo of
                (info, w2, a2) \<Rightarrow>
                  (info, convert_frequencies unit_conversion_factor (dims multi 1 * 3) w2,
                   a2)))"
  have run: "get_phonons E a w q fc2 masses p2s s2p multi svecs born dielectric
      reciprocal_lattice q_direction nac_factor unit_conversion_factor uplo = ?run ?cs"
    by (rule get_phonons_run)
  have split: "\<not> ?skip \<longleftrightarrow> ?applies"
    by (auto simp: not_less)
  have none: "?cs = None" if ?skip
    using that by (rule nac_charge_sum_skipped)
  have some: "?cs = Some (get_charge_sum E (dims multi 1) dielectric_factor q_cart born_data)"
    if "born = Some born_data" and "\<not> ?skip" for born_data
    unfolding factor q_cart
    using that(1) that(2) [unfolded de_Morgan_disj, THEN conjunct2]
    by (rule nac_charge_sum_applies)
  have iff: "?cs \<noteq> None \<longleftrightarrow> ?applies"
  proof (cases ?skip)
    case True
    then have "\<not> ?applies" using split by blast
    moreover have "?cs = None" using True by (rule none)
    ultimately show ?thesis by blast
  next
    case False
    then obtain born_data where b: "born = Some born_data" by auto
    have "?applies" using False split by blast
    moreover have "?cs \<noteq> None" unfolding some [OF b False] by simp
    ultimately show ?thesis by blast
  qed
  have applied: "get_phonons E a w q fc2 masses p2s s2p multi svecs born dielectric
      reciprocal_lattice q_direction nac_factor unit_conversion_factor uplo =
      ?run (Some (get_charge_sum E (dims multi 1) dielectric_factor q_cart born_data))"
    if "born = Some born_data \<and>
        ((1 / 10 ^ 10 \<le> \<bar>q 0\<bar> \<or> 1 / 10 ^ 10 \<le> \<bar>q 1\<bar> \<or> 1 / 10 ^ 10 \<le> \<bar>q 2\<bar>) \<or>
         q_direction \<noteq> None)" for born_data
  proof -
    have "\<not> ?skip" using that split by simp
    from some [OF that [THEN conjunct1] this] show ?thesis
      unfolding run by simp
  qed
  have skipped: "get_phonons E a w q fc2 masses p2s s2p multi svecs born dielectric
      reciprocal_lattice q_direction nac_factor unit_conversion_factor uplo = ?run None" if ?skip
    unfolding run none [OF that] by (rule refl)
  have same: "get_phonons E a w q fc2 masses p2s s2p multi svecs born dielectric
        reciprocal_lattice q_direction nac_factor unit_conversion_factor uplo =
      get_phonons E a w q fc2 masses p2s s2p multi svecs None dielectric reciprocal_lattice
        q_direction nac_factor unit_conversion_factor uplo" if ?skip
    by (rule get_phonons_charge_sum) (simp add: none [OF that] nac_charge_sum_skipped)
  show ?thesis
  proof (intro conjI allI impI)
    show "?cs \<noteq> None \<longleftrightarrow> ?applies" by (rule iff)
  qed (rule applied, assumption, rule none, assumption, rule skipped, assumption,
       rule same, assumption)
qed

text \<open>
  With Born charges, no direction, and stand-ins that let the tensor through to the
  frequencies: at \<open>q = (0, 0, 0)\<close> no tensor is built and the first frequency is \<open>0\<close>; at
  \<open>q = (1, 0, 0)\<close> the tensor is built and the first frequency is \<open>1\<close>; at
  \<open>q = (1e-10, 0, 0)\<close>, on the tolerance itself, the tensor is built.
\<close>

theorem nac_applicability_witness:
  "nac_charge_sum ex_sensitive (dims ex_multi 1) (dims ex_multi 0) ex_zeros (Some ex_identity)
     ex_identity ex_identity None 1 = None \<and>
   fst (snd (get_phonons ex_sensitive (data ex_eigenvectors) (data ex_frequencies) ex_zeros
     ex_table (data ex_table) ex_zeros ex_zeros ex_multi ex_table (Some ex_identity) ex_identity
     ex_identity None 1 1 85)) 0 = 0 \<and>
   nac_charge_sum ex_sensitive (dims ex_multi 1) (dims ex_multi 0) ex_direction
     (Some ex_identity) ex_identity ex_identity None 1 \<noteq> None \<and>
   fst (snd (get_phonons ex_sensitive (data ex_eigenvectors) (data ex_frequencies) ex_direction
     ex_table (data ex_table) ex_zeros ex_zeros ex_multi ex_table (Some ex_identity) ex_identity
     ex_identity None 1 1 85)) 0 = 1 \<and>
   nac_charge_sum ex_sensitive (dims ex_multi 1) (dims ex_multi 0) ex_tolerance
     (Some ex_identity) ex_identity ex_identity None 1 \<noteq> None"
proof -
  have gamma: "Some ex_identity = None \<or>
    (\<bar>ex_zeros 0 :: real\<bar> < 1 / 10 ^ 10 \<and> \<bar>ex_zeros 1 :: real\<bar> < 1 / 10 ^ 10 \<and>
     \<bar>ex_zeros 2 :: real\<bar> < 1 / 10 ^ 10 \<and> (None :: real ptr option) = None)"
    by (simp add: ex_zeros_def)
  have away: "Some ex_identity = Some ex_identity \<and>
      ((1 / 10 ^ 10 \<le> \<bar>ex_direction 0\<bar> \<or> 1 / 10 ^ 10 \<le> \<bar>ex_direction 1\<bar> \<or>
        1 / 10 ^ 10 \<le> \<bar>ex_direction 2\<bar>) \<or> (None :: real ptr option) \<noteq> None)"
    by (simp add: ex_direction_def)
  have edge: "Some ex_identity \<noteq> None \<and>
      ((1 / 10 ^ 10 \<le> \<bar>ex_tolerance 0\<bar> \<or> 1 / 10 ^ 10 \<le> \<bar>ex_tolerance 1\<bar> \<or>
        1 / 10 ^ 10 \<le> \<bar>ex_tolerance 2\<bar>) \<or> (None :: real ptr option) \<noteq> None)"
    by (simp add: ex_tolerance_def)
  note at_gamma = nac_applicability [OF refl refl, THEN conjunct2, THEN conjunct2, rule_format,
    OF gamma]
  note at_q = nac_applicability [OF refl refl, THEN conjunct2, THEN conjunct1, rule_format,
    OF away]
  have none: "nac_charge_sum ex_sensitive (dims ex_multi 1) (dims ex_multi 0) ex_zeros
     (Some ex_identity) ex_identity ex_identity None 1 = None"
    by (rule at_gamma [THEN conjunct1])
  have zero: "fst (snd (get_phonons ex_sensitive (data ex_eigenvectors) (data ex_frequencies)
     ex_zeros ex_table (data ex_table) ex_zeros ex_zeros ex_multi ex_table (Some ex_identity)
     ex_identity ex_identity None 1 1 85)) 0 = 0"
    unfolding at_gamma [THEN conjunct2, THEN conjunct1] ex_sensitive_pipeline
    by (simp add: frequency_of_def)
  have some: "nac_charge_sum ex_sensitive (dims ex_multi 1) (dims ex_multi 0) ex_direction
     (Some ex_identity) ex_identity ex_identity None 1 \<noteq> None"
    using nac_applicability [OF refl refl, THEN conjunct1, THEN iffD2] away by simp
  have one: "fst (snd (get_phonons ex_sensitive (data ex_eigenvectors) (data ex_frequencies)
     ex_direction ex_table (data ex_table) ex_zeros ex_zeros ex_multi ex_table (Some ex_identity)
     ex_identity ex_identity None 1 1 85)) 0 = 1"
    unfolding at_q ex_sensitive_pipeline
    by (simp add: frequency_of_def ex_sensitive_def ex_multi_def
        ex_inv_dielectric_factor [unfolded ex_direction_def [symmetric]] ex_q_cart)
  have at_edge: "nac_charge_sum ex_sensitive (dims ex_multi 1) (dims ex_multi 0) ex_tolerance
     (Some ex_identity) ex_identity ex_identity None 1 \<noteq> None"
    using nac_applicability [OF refl refl, THEN conjunct1, THEN iffD2, OF edge] .
  from none zero some one at_edge show ?thesis by (intro conjI)
qed

text \<open>
  Claim C6. Whenever the correction applies, with \<open>v\<close> the limiting direction when one is
  supplied and \<open>q\<close> otherwise: \<open>q_cart[i] = \<Sum>j. reciprocal_lattice[i,j] * v[j]\<close>; the scalar
  \<open>inv_dielectric_factor\<close> is \<open>q_cart\<^sup>T * dielectric * q_cart\<close>; and the charge-sum tensor is
  built with the factor \<open>nac_factor / inv_dielectric_factor / num_satom * num_patom\<close>, which
  is \<open>nac_factor / inv_dielectric_factor / N\<close> for \<open>N = num_satom / num_patom\<close> (the quotient
  of the two counts as real numbers) wherever the divisors are not zero.
\<close>

theorem nac_scaling_formula:
  assumes born: "born = Some born_data"
    and applies: "\<not> (\<bar>q 0\<bar> < 1 / 10 ^ 10 \<and> \<bar>q 1\<bar> < 1 / 10 ^ 10 \<and> \<bar>q 2\<bar> < 1 / 10 ^ 10 \<and>
                     q_direction = None)"
    and v: "v = (case q_direction of Some dir \<Rightarrow> dir | None \<Rightarrow> q)"
    and q_cart: "q_cart = to_cartesian reciprocal_lattice v"
    and inv: "inv_dielectric_factor = inv_dielectric_factor_of dielectric q_cart"
  shows
    "(\<forall>i \<in> {0..<3}. q_cart i = (\<Sum>j = 0..<3. reciprocal_lattice (i * 3 + j) * v j)) \<and>
     inv_dielectric_factor =
       (\<Sum>i = 0..<3. \<Sum>j = 0..<3. q_cart i * dielectric (i * 3 + j) * q_cart j) \<and>
     nac_charge_sum E num_patom num_satom q born dielectric reciprocal_lattice q_direction
       nac_factor =
       Some (get_charge_sum E num_patom
         (nac_factor / inv_dielectric_factor / real_of_int num_satom * real_of_int num_patom)
         q_cart born_data) \<and>
     (num_patom \<noteq> 0 \<and> num_satom \<noteq> 0 \<and> inv_dielectric_factor \<noteq> 0 \<longrightarrow>
        nac_factor / inv_dielectric_factor / real_of_int num_satom * real_of_int num_patom =
        nac_factor / inv_dielectric_factor / (real_of_int num_satom / real_of_int num_patom))"
proof -
  have cart: "\<forall>i \<in> {0..<3}. q_cart i = (\<Sum>j = 0..<3. reciprocal_lattice (i * 3 + j) * v j)"
    unfolding q_cart by (intro ballI to_cartesian_entry)
  have form: "inv_dielectric_factor =
       (\<Sum>i = 0..<3. \<Sum>j = 0..<3. q_cart i * dielectric (i * 3 + j) * q_cart j)"
    unfolding inv by (rule inv_dielectric_factor_of_sum)
  have call: "nac_charge_sum E num_patom num_satom q born dielectric reciprocal_lattice
       q_direction nac_factor =
       Some (get_charge_sum E num_patom
         (nac_factor / inv_dielectric_factor / real_of_int num_satom * real_of_int num_patom)
         q_cart born_data)"
    unfolding inv q_cart v using born applies by (rule nac_charge_sum_applies)
  have cells: "nac_factor / inv_dielectric_factor / real_of_int num_satom * real_of_int num_patom =
        nac_factor / inv_dielectric_factor / (real_of_int num_satom / real_of_int num_patom)"
    by simp
  from cart form call cells show ?thesis by blast
qed

text \<open>
  Direction \<open>(1, 0, 0)\<close>, identity lattice and dielectric tensor, one primitive atom in a
  supercell of eight, prefactor \<open>6\<close>: \<open>q_cart[0] = 1\<close>, the scalar is \<open>1\<close>, the factor is
  \<open>6 / 1 / (8 / 1)\<close>.
\<close>

theorem nac_scaling_formula_witness:
  "to_cartesian ex_identity ex_direction 0 = 1 \<and>
   inv_dielectric_factor_of ex_identity (to_cartesian ex_identity ex_direction) = 1 \<and>
   nac_charge_sum (ex_externals 0 ex_dm) 1 8 ex_zeros (Some ex_identity) ex_identity ex_identity
     (Some ex_direction) 6 =
     Some (get_charge_sum (ex_externals 0 ex_dm) 1 (6 / 1 / (8 / 1))
       (to_cartesian ex_identity ex_direction) ex_identity)"
proof -
  have applies: "\<not> (\<bar>ex_zeros 0 :: real\<bar> < 1 / 10 ^ 10 \<and> \<bar>ex_zeros 1 :: real\<bar> < 1 / 10 ^ 10 \<and>
     \<bar>ex_zeros 2 :: real\<bar> < 1 / 10 ^ 10 \<and> Some ex_direction = None)"
    by simp
  have v: "ex_direction = (case Some ex_direction of Some dir \<Rightarrow> dir | None \<Rightarrow> ex_zeros)"
    by simp
  note law = nac_scaling_formula [OF refl applies v refl refl,
    where reciprocal_lattice = ex_identity and dielectric = ex_identity and
      E = "ex_externals 0 ex_dm" and num_patom = 1 and num_satom = 8 and nac_factor = 6]
  have zero: "(0::int) \<in> {0..<3}" by simp
  have c0: "to_cartesian ex_identity ex_direction 0 = 1"
    using law [THEN conjunct1, THEN bspec, OF zero]
    by (simp add: three ex_identity_def ex_direction_def)
  have c1: "to_cartesian ex_identity ex_direction 1 = 0"
    using to_cartesian_entry [of 1 ex_identity ex_direction]
    by (simp add: three ex_identity_def ex_direction_def)
  have c2: "to_cartesian ex_identity ex_direction 2 = 0"
    using to_cartesian_entry [of 2 ex_identity ex_direction]
    by (simp add: three ex_identity_def ex_direction_def)
  have e: "ex_identity k = (if k = 0 \<or> k = 4 \<or> k = 8 then 1 else 0)" for k
    by (simp add: ex_identity_def)
  have idf: "inv_dielectric_factor_of ex_identity (to_cartesian ex_identity ex_direction) = 1"
    using law [THEN conjunct2, THEN conjunct1]
    by (simp add: three c0 c1 c2 e)
  have nz: "(1::int) \<noteq> 0 \<and> (8::int) \<noteq> 0 \<and>
      inv_dielectric_factor_of ex_identity (to_cartesian ex_identity ex_direction) \<noteq> 0"
    by (simp add: idf)
  have "nac_charge_sum (ex_externals 0 ex_dm) 1 8 ex_zeros (Some ex_identity) ex_identity
     ex_identity (Some ex_direction) 6 =
     Some (get_charge_sum (ex_externals 0 ex_dm) 1 (6 / 1 / (8 / 1))
       (to_cartesian ex_identity ex_direction) ex_identity)"
    using law [THEN conjunct2, THEN conjunct2, THEN conjunct1]
      law [THEN conjunct2, THEN conjunct2, THEN conjunct2, rule_format, OF nz]
    by (simp add: idf)
  with c0 idf show ?thesis by simp
qed

text \<open>
  Claim C7, amended. \<^verbatim>\<open>get_phonons\<close> has no test of \<open>inv_dielectric_factor\<close>. For every
  input where Born charges are supplied and the correction applies, whatever the value of
  \<open>inv_dielectric_factor\<close>, it calls \<^verbatim>\<open>get_charge_sum\<close> with the quotient
  \<open>nac_factor / inv_dielectric_factor / num_satom * num_patom\<close>, hands the result to
  \<^verbatim>\<open>get_dynamical_matrix_at_q\<close>, goes on to the eigensolver, and returns the status of the
  eigensolver.
\<close>

theorem degenerate_direction_unchecked:
  assumes born: "born = Some born_data"
    and applies: "\<not> (\<bar>q 0\<bar> < 1 / 10 ^ 10 \<and> \<bar>q 1\<bar> < 1 / 10 ^ 10 \<and> \<bar>q 2\<bar> < 1 / 10 ^ 10 \<and>
                     q_direction = None)"
    and q_cart: "q_cart = to_cartesian reciprocal_lattice
                   (case q_direction of Some dir \<Rightarrow> dir | None \<Rightarrow> q)"
    and charge_sum: "charge_sum = get_charge_sum E (dims multi 1)
         (nac_factor / inv_dielectric_factor_of dielectric q_cart / real_of_int (dims multi 0) *
          real_of_int (dims multi 1)) q_cart born_data"
    and dm: "get_dynamical_matrix_at_q E (\<lambda>_. 0) (\<lambda>_. 0) (dims multi 1) (dims multi 0) (data fc2) q
       (data svecs) (data multi) masses s2p p2s (Some charge_sum) = (dm_real, dm_imag)"
  shows
    "nac_charge_sum E (dims multi 1) (dims multi 0) q born dielectric reciprocal_lattice
       q_direction nac_factor = Some charge_sum \<and>
     get_phonons E a w q fc2 masses p2s s2p multi svecs born dielectric reciprocal_lattice
       q_direction nac_factor unit_conversion_factor uplo =
       (case phonopy_zheev E w (hermitize dm_real dm_imag (dims multi 1) a) (dims multi 1 * 3) uplo of
          (info, w2, a2) \<Rightarrow>
            (info, convert_frequencies unit_conversion_factor (dims multi 1 * 3) w2, a2)) \<and>
     fst (get_phonons E a w q fc2 masses p2s s2p multi svecs born dielectric reciprocal_lattice
       q_direction nac_factor unit_conversion_factor uplo) =
       fst (phonopy_zheev E w (hermitize dm_real dm_imag (dims multi 1) a) (dims multi 1 * 3) uplo)"
proof -
  have cs: "nac_charge_sum E (dims multi 1) (dims multi 0) q born dielectric reciprocal_lattice
       q_direction nac_factor = Some charge_sum"
    unfolding charge_sum q_cart using born applies by (rule nac_charge_sum_applies)
  have dm': "get_dynamical_matrix_at_q E (\<lambda>_. 0) (\<lambda>_. 0) (dims multi 1) (dims multi 0) (data fc2) q
       (data svecs) (data multi) masses s2p p2s
       (nac_charge_sum E (dims multi 1) (dims multi 0) q born dielectric reciprocal_lattice
          q_direction nac_factor) = (dm_real, dm_imag)"
    unfolding cs by (rule dm)
  from cs get_phonons_unfold [OF dm'] get_phonons_status [OF dm'] show ?thesis
    by (intro conjI)
qed

text \<open>
  A zero dielectric tensor with the direction \<open>(1, 0, 0)\<close>: the scalar is \<open>0\<close>, the tensor
  is built, and the status returned is the \<open>7\<close> of the eigensolver.
\<close>

theorem degenerate_direction_unchecked_witness:
  "inv_dielectric_factor_of ex_zeros (to_cartesian ex_identity ex_direction) = 0 \<and>
   nac_charge_sum (ex_externals 0 ex_dm) (dims ex_multi 1) (dims ex_multi 0) ex_zeros
     (Some ex_identity) ex_zeros ex_identity (Some ex_direction) 1 \<noteq> None \<and>
   fst (get_phonons (ex_externals 7 ex_dm) (data ex_eigenvectors) (data ex_frequencies) ex_zeros
     ex_table (data ex_table) ex_zeros ex_zeros ex_multi ex_table (Some ex_identity) ex_zeros
     ex_identity (Some ex_direction) 1 1 85) = 7"
proof -
  have applies: "\<not> (\<bar>ex_zeros 0 :: real\<bar> < 1 / 10 ^ 10 \<and> \<bar>ex_zeros 1 :: real\<bar> < 1 / 10 ^ 10 \<and>
     \<bar>ex_zeros 2 :: real\<bar> < 1 / 10 ^ 10 \<and> Some ex_direction = None)"
    by simp
  have dm: "get_dynamical_matrix_at_q (ex_externals 0 ex_dm) (\<lambda>_. 0) (\<lambda>_. 0) (dims ex_multi 1)
       (dims ex_multi 0) (data ex_table) ex_zeros (data ex_table) (data ex_multi) (data ex_table)
       ex_zeros ex_zeros (Some cs) = (fst ex_dm, snd ex_dm)" for cs
    by (simp add: ex_externals_def)
  have dm7: "get_dynamical_matrix_at_q (ex_externals 7 ex_dm) (\<lambda>_. 0) (\<lambda>_. 0) (dims ex_multi 1)
       (dims ex_multi 0) (data ex_table) ex_zeros (data ex_table) (data ex_multi) (data ex_table)
       ex_zeros ex_zeros (Some cs) = (fst ex_dm, snd ex_dm)" for cs
    by (simp add: ex_externals_def)
  have idf: "inv_dielectric_factor_of ex_zeros (to_cartesian ex_identity ex_direction) = 0"
    by (simp add: inv_dielectric_factor_of_sum ex_zeros_def)
  have built: "nac_charge_sum (ex_externals 0 ex_dm) (dims ex_multi 1) (dims ex_multi 0) ex_zeros
     (Some ex_identity) ex_zeros ex_identity (Some ex_direction) 1 \<noteq> None"
    using degenerate_direction_unchecked [OF refl applies refl refl dm, THEN conjunct1]
    by simp
  have "fst (get_phonons (ex_externals 7 ex_dm) (data ex_eigenvectors) (data ex_frequencies)
     ex_zeros ex_table (data ex_table) ex_zeros ex_zeros ex_multi ex_table (Some ex_identity)
     ex_zeros ex_identity (Some ex_direction) 1 1 85) = 7"
    using degenerate_direction_unchecked [where a = "data ex_eigenvectors" and
      w = "data ex_frequencies" and unit_conversion_factor = 1 and uplo = 85,
      OF refl applies refl refl dm7, THEN conjunct2, THEN conjunct2]
    by (simp add: ex_externals_def)
  with idf built show ?thesis by simp
qed

text \<open>
  Claim C7 as stated asks for an error when \<open>inv_dielectric_factor\<close> is zero. Here Born
  charges are supplied, the correction applies, the scalar is \<open>0\<close>, and \<^verbatim>\<open>get_phonons\<close>
  returns the status \<open>0\<close> of a successful eigensolver run.
\<close>

theorem degenerate_direction_counterexample:
  "Some ex_identity \<noteq> None \<and>
   nac_charge_sum (ex_externals 0 ex_dm) (dims ex_multi 1) (dims ex_multi 0) ex_zeros
     (Some ex_identity) ex_zeros ex_identity (Some ex_direction) 1 \<noteq> None \<and>
   inv_dielectric_factor_of ex_zeros (to_cartesian ex_identity ex_direction) = 0 \<and>
   fst (get_phonons (ex_externals 0 ex_dm) (data ex_eigenvectors) (data ex_frequencies) ex_zeros
     ex_table (data ex_table) ex_zeros ex_zeros ex_multi ex_table (Some ex_identity) ex_zeros
     ex_identity (Some ex_direction) 1 1 85) = 0"
  by (simp add: get_phonons_def nac_charge_sum_def inv_dielectric_factor_of_sum ex_zeros_def
      ex_externals_def Let_def split: prod.splits)

section \<open>The loop over the undone points\<close>


lemma undone_step_unfold:
  "undone_step E grid_address mesh fc2 svecs_fc2 multi_fc2 masses_fc2 p2s_fc2 s2p_fc2
     unit_conversion_factor born dielectric reciprocal_lattice q_direction nac_factor uplo gp
     (frequencies, eigenvectors) =
   (case get_phonons E
           (shift (data eigenvectors) (dims frequencies 1 * dims frequencies 1 * gp))
           (shift (data frequencies) (dims frequencies 1 * gp))
           (grid_q grid_address mesh gp) fc2 masses_fc2 p2s_fc2 s2p_fc2 multi_fc2 svecs_fc2
           born dielectric reciprocal_lattice (if gp = 0 then q_direction else None) nac_factor
           unit_conversion_factor uplo of
      (info, w, a) \<Rightarrow>
        (frequencies\<lparr>data := unshift (dims frequencies 1 * gp) w\<rparr>,
         eigenvectors\<lparr>data := unshift (dims frequencies 1 * dims frequencies 1 * gp) a\<rparr>))"
  by (simp add: undone_step_def Let_def)

lemma grid_q_entry:
  assumes "j \<in> {0..<3}"
  shows "grid_q grid_address mesh gp j =
     real_of_int (grid_address (gp * 3 + j)) / real_of_int (mesh j)"
proof -
  have "j = 0 \<or> j = 1 \<or> j = 2" using assms by auto
  then show ?thesis by (auto simp: grid_q_def upto_0_2)
qed

lemma undone_step_direction:
  assumes "gp \<noteq> 0"
  shows "undone_step E grid_address mesh fc2 svecs_fc2 multi_fc2 masses_fc2 p2s_fc2 s2p_fc2
     unit_conversion_factor born dielectric reciprocal_lattice q_direction nac_factor uplo gp s =
   undone_step E grid_address mesh fc2 svecs_fc2 multi_fc2 masses_fc2 p2s_fc2 s2p_fc2
     unit_conversion_factor born dielectric reciprocal_lattice None nac_factor uplo gp s"
  using assms by (cases s) (simp add: undone_step_unfold)

lemma nac_charge_sum_externals:
  assumes "get_charge_sum E' = get_charge_sum E"
  shows "nac_charge_sum E' num_patom num_satom q born dielectric reciprocal_lattice q_direction
           nac_factor =
         nac_charge_sum E num_patom num_satom q born dielectric reciprocal_lattice q_direction
           nac_factor"
  unfolding nac_charge_sum_def assms by (rule refl)

lemma get_phonons_status_irrelevant:
  assumes cs: "get_charge_sum E' = get_charge_sum E"
    and dm: "get_dynamical_matrix_at_q E' = get_dynamical_matrix_at_q E"
    and z: "\<And>w a n uplo. snd (phonopy_zheev E' w a n uplo) = snd (phonopy_zheev E w a n uplo)"
  shows "snd (get_phonons E' a w q fc2 masses p2s s2p multi svecs born dielectric
            reciprocal_lattice q_direction nac_factor unit_conversion_factor uplo) =
         snd (get_phonons E a w q fc2 masses p2s s2p multi svecs born dielectric
            reciprocal_lattice q_direction nac_factor unit_conversion_factor uplo)"
proof -
  obtain dm_real dm_imag where d: "get_dynamical_matrix_at_q E (\<lambda>_. 0) (\<lambda>_. 0) (dims multi 1)
       (dims multi 0) (data fc2) q (data svecs) (data multi) masses s2p p2s
       (nac_charge_sum E (dims multi 1) (dims multi 0) q born dielectric reciprocal_lattice
          q_direction nac_factor) = (dm_real, dm_imag)"
    by (meson surj_pair)
  have d': "get_dynamical_matrix_at_q E' (\<lambda>_. 0) (\<lambda>_. 0) (dims multi 1)
       (dims multi 0) (data fc2) q (data svecs) (data multi) masses s2p p2s
       (nac_charge_sum E' (dims multi 1) (dims multi 0) q born dielectric reciprocal_lattice
          q_direction nac_factor) = (dm_real, dm_imag)"
    unfolding dm nac_charge_sum_externals [OF cs] by (rule d)
  have "snd (phonopy_zheev E' w (hermitize dm_real dm_imag (dims multi 1) a) (dims multi 1 * 3) uplo) =
        snd (phonopy_zheev E w (hermitize dm_real dm_imag (dims multi 1) a) (dims multi 1 * 3) uplo)"
    by (rule z)
  then show ?thesis
    unfolding get_phonons_unfold [OF d] get_phonons_unfold [OF d']
    by (auto split: prod.splits)
qed

lemma undone_step_status_irrelevant:
  assumes cs: "get_charge_sum E' = get_charge_sum E"
    and dm: "get_dynamical_matrix_at_q E' = get_dynamical_matrix_at_q E"
    and z: "\<And>w a n uplo. snd (phonopy_zheev E' w a n uplo) = snd (phonopy_zheev E w a n uplo)"
  shows "undone_step E' grid_address mesh fc2 svecs_fc2 multi_fc2 masses_fc2 p2s_fc2 s2p_fc2
     unit_conversion_factor born dielectric reciprocal_lattice q_direction nac_factor uplo gp s =
   undone_step E grid_address mesh fc2 svecs_fc2 multi_fc2 masses_fc2 p2s_fc2 s2p_fc2
     unit_conversion_factor born dielectric reciprocal_lattice q_direction nac_factor uplo gp s"
proof (cases s)
  case (Pair frequencies eigenvectors)
  have "snd (get_phonons E'
           (shift (data eigenvectors) (dims frequencies 1 * dims frequencies 1 * gp))
           (shift (data frequencies) (dims frequencies 1 * gp))
           (grid_q grid_address mesh gp) fc2 masses_fc2 p2s_fc2 s2p_fc2 multi_fc2 svecs_fc2
           born dielectric reciprocal_lattice (if gp = 0 then q_direction else None) nac_factor
           unit_conversion_factor uplo) =
        snd (get_phonons E
           (shift (data eigenvectors) (dims frequencies 1 * dims frequencies 1 * gp))
           (shift (data frequencies) (dims frequencies 1 * gp))
           (grid_q grid_address mesh gp) fc2 masses_fc2 p2s_fc2 s2p_fc2 multi_fc2 svecs_fc2
           born dielectric reciprocal_lattice (if gp = 0 then q_direction else None) nac_factor
           unit_conversion_factor uplo)"
    using cs dm z by (rule get_phonons_status_irrelevant)
  then show ?thesis
    unfolding Pair undone_step_unfold by (auto split: prod.splits)
qed

lemma batch_status_irrelevant:
  assumes cs: "get_charge_sum E' = get_charge_sum E"
    and dm: "get_dynamical_matrix_at_q E' = get_dynamical_matrix_at_q E"
    and z: "\<And>w a n uplo. snd (phonopy_zheev E' w a n uplo) = snd (phonopy_zheev E w a n uplo)"
  shows "set_phonons_at_gridpoints E' frequencies eigenvectors phonon_done grid_points
       grid_address mesh fc2 svecs_fc2 multi_fc2 masses_fc2 p2s_fc2 s2p_fc2
       unit_conversion_factor born dielectric reciprocal_lattice q_direction nac_factor uplo =
     set_phonons_at_gridpoints E frequencies eigenvectors phonon_done grid_points
       grid_address mesh fc2 svecs_fc2 multi_fc2 masses_fc2 p2s_fc2 s2p_fc2
       unit_conversion_factor born dielectric reciprocal_lattice q_direction nac_factor uplo"
proof -
  have "undone_step E' grid_address mesh fc2 svecs_fc2 multi_fc2 masses_fc2 p2s_fc2 s2p_fc2
     unit_conversion_factor born dielectric reciprocal_lattice q_direction nac_factor uplo =
   undone_step E grid_address mesh fc2 svecs_fc2 multi_fc2 masses_fc2 p2s_fc2 s2p_fc2
     unit_conversion_factor born dielectric reciprocal_lattice q_direction nac_factor uplo"
    by (intro ext undone_step_status_irrelevant [OF cs dm z])
  then show ?thesis
    by (simp add: set_phonons_at_gridpoints_def get_undone_phonons_def)
qed

lemma get_undone_phonons_Cons:
  "get_undone_phonons E frequencies eigenvectors (gp # rest) grid_address mesh fc2 svecs_fc2
     multi_fc2 masses_fc2 p2s_fc2 s2p_fc2 unit_conversion_factor born dielectric
     reciprocal_lattice q_direction nac_factor uplo =
   (case get_phonons E
           (shift (data eigenvectors) (dims frequencies 1 * dims frequencies 1 * gp))
           (shift (data frequencies) (dims frequencies 1 * gp))
           (grid_q grid_address mesh gp) fc2 masses_fc2 p2s_fc2 s2p_fc2 multi_fc2 svecs_fc2
           born dielectric reciprocal_lattice (if gp = 0 then q_direction else None) nac_factor
           unit_conversion_factor uplo of
      (info, w, a) \<Rightarrow>
        get_undone_phonons E
          (frequencies\<lparr>data := unshift (dims frequencies 1 * gp) w\<rparr>)
          (eigenvectors\<lparr>data := unshift (dims frequencies 1 * dims frequencies 1 * gp) a\<rparr>)
          rest grid_address mesh fc2 svecs_fc2 multi_fc2 masses_fc2 p2s_fc2 s2p_fc2
          unit_conversion_factor born dielectric reciprocal_lattice q_direction nac_factor uplo)"
  unfolding get_undone_phonons_def
  by (simp only: fold_simps comp_apply undone_step_unfold split: prod.splits) simp

text \<open>
  Claim C5. In \<^verbatim>\<open>get_undone_phonons\<close>, the wavevector of the grid point \<open>gp\<close> is
  \<open>q[j] = grid_address[gp * 3 + j] / mesh[j]\<close>. The batch solver over no point leaves the
  buffers as they are; over \<open>gp\<close> followed by \<open>rest\<close> it calls \<^verbatim>\<open>get_phonons\<close> on the slots of
  \<open>gp\<close> with that wavevector, with the caller's \<^verbatim>\<open>q_direction\<close> when \<open>gp = 0\<close> and with \<^verbatim>\<open>NULL\<close>
  otherwise, writes the result into the slots of \<open>gp\<close>, and goes on with \<open>rest\<close>. So the
  turn of a grid point other than \<open>0\<close> does not depend on \<^verbatim>\<open>q_direction\<close>, and neither does a
  whole batch that has no grid point \<open>0\<close>.
\<close>

theorem limiting_direction_threading:
  "(\<forall>j \<in> {0..<3}. grid_q grid_address mesh gp j =
      real_of_int (grid_address (gp * 3 + j)) / real_of_int (mesh j)) \<and>
   get_undone_phonons E frequencies eigenvectors [] grid_address mesh fc2 svecs_fc2 multi_fc2
     masses_fc2 p2s_fc2 s2p_fc2 unit_conversion_factor born dielectric reciprocal_lattice
     q_direction nac_factor uplo = (frequencies, eigenvectors) \<and>
   get_undone_phonons E frequencies eigenvectors (gp # rest) grid_address mesh fc2 svecs_fc2
     multi_fc2 masses_fc2 p2s_fc2 s2p_fc2 unit_conversion_factor born dielectric
     reciprocal_lattice q_direction nac_factor uplo =
     (case get_phonons E
             (shift (data eigenvectors) (dims frequencies 1 * dims frequencies 1 * gp))
             (shift (data frequencies) (dims frequencies 1 * gp))
             (grid_q grid_address mesh gp) fc2 masses_fc2 p2s_fc2 s2p_fc2 multi_fc2 svecs_fc2
             born dielectric reciprocal_lattice (if gp = 0 then q_direction else None)
             nac_factor unit_conversion_factor uplo of
        (info, w, a) \<Rightarrow>
          get_undone_phonons E
            (frequencies\<lparr>data := unshift (dims frequencies 1 * gp) w\<rparr>)
            (eigenvectors\<lparr>data := unshift (dims frequencies 1 * dims frequencies 1 * gp) a\<rparr>)
            rest grid_address mesh fc2 svecs_fc2 multi_fc2 masses_fc2 p2s_fc2 s2p_fc2
            unit_conversion_factor born dielectric reciprocal_lattice q_direction nac_factor
            uplo) \<and>
   undone_step E grid_address mesh fc2 svecs_fc2 multi_fc2 masses_fc2 p2s_fc2 s2p_fc2
     unit_conversion_factor born dielectric reciprocal_lattice q_direction nac_factor uplo gp
     (frequencies, eigenvectors) =
     (case get_phonons E
             (shift (data eigenvectors) (dims frequencies 1 * dims frequencies 1 * gp))
             (shift (data frequencies) (dims frequencies 1 * gp))
             (grid_q grid_address mesh gp) fc2 masses_fc2 p2s_fc2 s2p_fc2 multi_fc2 svecs_fc2
             born dielectric reciprocal_lattice (if gp = 0 then q_direction else None)
             nac_factor unit_conversion_factor uplo of
        (info, w, a) \<Rightarrow>
          (frequencies\<lparr>data := unshift (dims frequencies 1 * gp) w\<rparr>,
           eigenvectors\<lparr>data := unshift (dims frequencies 1 * dims frequencies 1 * gp) a\<rparr>)) \<and>
   (gp \<noteq> 0 \<longrightarrow>
      undone_step E grid_address mesh fc2 svecs_fc2 multi_fc2 masses_fc2 p2s_fc2 s2p_fc2
        unit_conversion_factor born dielectric reciprocal_lattice q_direction nac_factor uplo gp
        (frequencies, eigenvectors) =
      undone_step E grid_address mesh fc2 svecs_fc2 multi_fc2 masses_fc2 p2s_fc2 s2p_fc2
        unit_conversion_factor born dielectric reciprocal_lattice None nac_factor uplo gp
        (frequencies, eigenvectors)) \<and>
   (0 \<notin> set undone_grid_points \<longrightarrow>
      get_undone_phonons E frequencies eigenvectors undone_grid_points grid_address mesh fc2
        svecs_fc2 multi_fc2 masses_fc2 p2s_fc2 s2p_fc2 unit_conversion_factor born dielectric
        reciprocal_lattice q_direction nac_factor uplo =
      get_undone_phonons E frequencies eigenvectors undone_grid_points grid_address mesh fc2
        svecs_fc2 multi_fc2 masses_fc2 p2s_fc2 s2p_fc2 unit_conversion_factor born dielectric
        reciprocal_lattice None nac_factor uplo)"
proof (intro conjI impI ballI)
  fix j :: int assume "j \<in> {0..<3}"
  then show "grid_q grid_address mesh gp j =
      real_of_int (grid_address (gp * 3 + j)) / real_of_int (mesh j)"
    by (rule grid_q_entry)
next
  show "get_undone_phonons E frequencies eigenvectors [] grid_address mesh fc2 svecs_fc2
     multi_fc2 masses_fc2 p2s_fc2 s2p_fc2 unit_conversion_factor born dielectric
     reciprocal_lattice q_direction nac_factor uplo = (frequencies, eigenvectors)"
    by (rule get_undone_phonons_Nil)
next
  show "get_undone_phonons E frequencies eigenvectors (gp # rest) grid_address mesh fc2 svecs_fc2
     multi_fc2 masses_fc2 p2s_fc2 s2p_fc2 unit_conversion_factor born dielectric
     reciprocal_lattice q_direction nac_factor uplo =
     (case get_phonons E
             (shift (data eigenvectors) (dims frequencies 1 * dims frequencies 1 * gp))
             (shift (data frequencies) (dims frequencies 1 * gp))
             (grid_q grid_address mesh gp) fc2 masses_fc2 p2s_fc2 s2p_fc2 multi_fc2 svecs_fc2
             born dielectric reciprocal_lattice (if gp = 0 then q_direction else None)
             nac_factor unit_conversion_factor uplo of
        (info, w, a) \<Rightarrow>
          get_undone_phonons E
            (frequencies\<lparr>data := unshift (dims frequencies 1 * gp) w\<rparr>)
            (eigenvectors\<lparr>data := unshift (dims frequencies 1 * dims frequencies 1 * gp) a\<rparr>)
            rest grid_address mesh fc2 svecs_fc2 multi_fc2 masses_fc2 p2s_fc2 s2p_fc2
            unit_conversion_factor born dielectric reciprocal_lattice q_direction nac_factor
            uplo)"
    by (rule get_undone_phonons_Cons)
next
  show "undone_step E grid_address mesh fc2 svecs_fc2 multi_fc2 masses_fc2 p2s_fc2 s2p_fc2
     unit_conversion_factor born dielectric reciprocal_lattice q_direction nac_factor uplo gp
     (frequencies, eigenvectors) =
     (case get_phonons E
             (shift (data eigenvectors) (dims frequencies 1 * dims frequencies 1 * gp))
             (shift (data frequencies) (dims frequencies 1 * gp))
             (grid_q grid_address mesh gp) fc2 masses_fc2 p2s_fc2 s2p_fc2 multi_fc2 svecs_fc2
             born dielectric reciprocal_lattice (if gp = 0 then q_direction else None)
             nac_factor unit_conversion_factor uplo of
        (info, w, a) \<Rightarrow>
          (frequencies\<lparr>data := unshift (dims frequencies 1 * gp) w\<rparr>,
           eigenvectors\<lparr>data := unshift (dims frequencies 1 * dims frequencies 1 * gp) a\<rparr>))"
    by (rule undone_step_unfold)
next
  assume "gp \<noteq> 0"
  then show "undone_step E grid_address mesh fc2 svecs_fc2 multi_fc2 masses_fc2 p2s_fc2 s2p_fc2
        unit_conversion_factor born dielectric reciprocal_lattice q_direction nac_factor uplo gp
        (frequencies, eigenvectors) =
      undone_step E grid_address mesh fc2 svecs_fc2 multi_fc2 masses_fc2 p2s_fc2 s2p_fc2
        unit_conversion_factor born dielectric reciprocal_lattice None nac_factor uplo gp
        (frequencies, eigenvectors)"
    by (rule undone_step_direction)
next
  assume "0 \<notin> set undone_grid_points"
  then have "\<forall>gp \<in> set undone_grid_points. gp \<noteq> 0" by metis
  then show "get_undone_phonons E frequencies eigenvectors undone_grid_points grid_address mesh
        fc2 svecs_fc2 multi_fc2 masses_fc2 p2s_fc2 s2p_fc2 unit_conversion_factor born dielectric
        reciprocal_lattice q_direction nac_factor uplo =
      get_undone_phonons E frequencies eigenvectors undone_grid_points grid_address mesh fc2
        svecs_fc2 multi_fc2 masses_fc2 p2s_fc2 s2p_fc2 unit_conversion_factor born dielectric
        reciprocal_lattice None nac_factor uplo"
    unfolding get_undone_phonons_def
    by (intro fold_cong refl ext undone_step_direction) simp
qed

text \<open>
  On the mesh \<open>2 \<times> 2 \<times> 2\<close> with \<open>grid_address[i] = i mod 2\<close>, the first component of the
  wavevector of grid point \<open>5\<close> is \<open>1 / 2\<close>. With Born charges and stand-ins that let the
  tensor through to the frequencies, the batch \<open>[0]\<close> at the zero wavevector leaves the
  first frequency \<open>1\<close> with the direction \<open>(1, 0, 0)\<close> and \<open>0\<close> with none, and the batch
  \<open>[5, 7]\<close> is the same with the direction as with none.
\<close>

theorem limiting_direction_threading_witness:
  "grid_q ex_grid_address ex_mesh 5 0 = 1 / 2 \<and>
   data (fst (get_undone_phonons ex_sensitive ex_frequencies ex_eigenvectors [0]
     ex_gamma_address ex_mesh ex_table ex_table ex_multi (data ex_table) ex_zeros ex_zeros 1
     (Some ex_identity) ex_identity ex_identity (Some ex_direction) 1 85)) 0 = 1 \<and>
   data (fst (get_undone_phonons ex_sensitive ex_frequencies ex_eigenvectors [0]
     ex_gamma_address ex_mesh ex_table ex_table ex_multi (data ex_table) ex_zeros ex_zeros 1
     (Some ex_identity) ex_identity ex_identity None 1 85)) 0 = 0 \<and>
   get_undone_phonons ex_sensitive ex_frequencies ex_eigenvectors [5, 7]
     ex_gamma_address ex_mesh ex_table ex_table ex_multi (data ex_table) ex_zeros ex_zeros 1
     (Some ex_identity) ex_identity ex_identity (Some ex_direction) 1 85 =
   get_undone_phonons ex_sensitive ex_frequencies ex_eigenvectors [5, 7]
     ex_gamma_address ex_mesh ex_table ex_table ex_multi (data ex_table) ex_zeros ex_zeros 1
     (Some ex_identity) ex_identity ex_identity None 1 85"
proof -
  have j: "(0::int) \<in> {0..<3}" by simp
  have u: "(0::int) \<notin> set [5, 7]" by simp
  have q5: "grid_q ex_grid_address ex_mesh 5 0 = 1 / 2"
    using limiting_direction_threading [where gp = 5 and grid_address = ex_grid_address
        and mesh = ex_mesh, THEN conjunct1, THEN bspec, OF j]
    by (simp add: ex_grid_address_def ex_mesh_def)
  have turn: "data (fst (get_undone_phonons ex_sensitive ex_frequencies ex_eigenvectors [0]
       ex_gamma_address ex_mesh ex_table ex_table ex_multi (data ex_table) ex_zeros ex_zeros 1
       (Some ex_identity) ex_identity ex_identity direction 1 85)) 0 =
     fst (snd (get_phonons ex_sensitive
       (shift (data ex_eigenvectors) (dims ex_frequencies 1 * dims ex_frequencies 1 * 0))
       (shift (data ex_frequencies) (dims ex_frequencies 1 * 0))
       (grid_q ex_gamma_address ex_mesh 0) ex_table (data ex_table) ex_zeros ex_zeros ex_multi
       ex_table (Some ex_identity) ex_identity ex_identity direction 1 1 85)) 0" for direction
    unfolding limiting_direction_threading [where gp = 0 and rest = "[]",
        THEN conjunct2, THEN conjunct2, THEN conjunct1]
      limiting_direction_threading [where gp = 0, THEN conjunct2, THEN conjunct1]
    by (simp add: unshift_def split: prod.splits)
  have gamma: "\<bar>grid_q ex_gamma_address ex_mesh 0 k\<bar> < 1 / 10 ^ 10" if "k \<in> {0..<3}" for k
    using that grid_q_entry [OF that, of ex_gamma_address ex_mesh 0]
    by (simp add: ex_gamma_address_def)
  have with_direction: "data (fst (get_undone_phonons ex_sensitive ex_frequencies ex_eigenvectors
       [0] ex_gamma_address ex_mesh ex_table ex_table ex_multi (data ex_table) ex_zeros ex_zeros 1
       (Some ex_identity) ex_identity ex_identity (Some ex_direction) 1 85)) 0 = 1"
    unfolding turn ex_sensitive_frequency
    by (simp add: nac_charge_sum_def Let_def ex_inv_dielectric_factor ex_q_cart ex_sensitive_def
        ex_multi_def frequency_of_def)
  have without_direction: "data (fst (get_undone_phonons ex_sensitive ex_frequencies
       ex_eigenvectors [0] ex_gamma_address ex_mesh ex_table ex_table ex_multi (data ex_table)
       ex_zeros ex_zeros 1 (Some ex_identity) ex_identity ex_identity None 1 85)) 0 = 0"
    unfolding turn ex_sensitive_frequency
    using gamma [of 0] gamma [of 1] gamma [of 2]
    by (simp add: nac_charge_sum_def frequency_of_def)
  have others: "get_undone_phonons ex_sensitive ex_frequencies ex_eigenvectors [5, 7]
       ex_gamma_address ex_mesh ex_table ex_table ex_multi (data ex_table) ex_zeros ex_zeros 1
       (Some ex_identity) ex_identity ex_identity (Some ex_direction) 1 85 =
     get_undone_phonons ex_sensitive ex_frequencies ex_eigenvectors [5, 7]
       ex_gamma_address ex_mesh ex_table ex_table ex_multi (data ex_table) ex_zeros ex_zeros 1
       (Some ex_identity) ex_identity ex_identity None 1 85"
    using limiting_direction_threading [where undone_grid_points = "[5, 7]",
        THEN conjunct2, THEN conjunct2, THEN conjunct2, THEN conjunct2, THEN conjunct2,
        rule_format, OF u] .
  from q5 with_direction without_direction others show ?thesis by (intro conjI)
qed

text \<open>
  Claim C9, amended. The status that the eigensolver reports for a grid point is returned
  by \<^verbatim>\<open>get_phonons\<close> and discarded by \<^verbatim>\<open>get_undone_phonons\<close>; the batch entry point returns
  nothing. Two eigensolvers that leave the same buffers, whatever status each reports,
  give the same frequencies, eigenvectors and flags: a failure neither reaches the caller
  nor stops or changes the computation of the other grid points of the batch.
\<close>

theorem eigensolver_status_discarded:
  assumes "get_charge_sum E' = get_charge_sum E"
    and "get_dynamical_matrix_at_q E' = get_dynamical_matrix_at_q E"
    and "\<forall>w a n uplo. snd (phonopy_zheev E' w a n uplo) = snd (phonopy_zheev E w a n uplo)"
  shows "set_phonons_at_gridpoints E' frequencies eigenvectors phonon_done grid_points
       grid_address mesh fc2 svecs_fc2 multi_fc2 masses_fc2 p2s_fc2 s2p_fc2
       unit_conversion_factor born dielectric reciprocal_lattice q_direction nac_factor uplo =
     set_phonons_at_gridpoints E frequencies eigenvectors phonon_done grid_points
       grid_address mesh fc2 svecs_fc2 multi_fc2 masses_fc2 p2s_fc2 s2p_fc2
       unit_conversion_factor born dielectric reciprocal_lattice q_direction nac_factor uplo"
  using assms by (intro batch_status_irrelevant) simp_all

text \<open>
  An eigensolver that reports the status \<open>1\<close> on every call gives the same batch result as
  one that reports \<open>0\<close>.
\<close>

theorem eigensolver_status_discarded_witness:
  "fst (phonopy_zheev (ex_externals 1 ex_dm) (data ex_frequencies) (data ex_eigenvectors) 3 85) = 1 \<and>
   ex_batch (ex_externals 1 ex_dm) ex_frequencies ex_eigenvectors ex_zeros ex_grid_points
     None None =
   ex_batch (ex_externals 0 ex_dm) ex_frequencies ex_eigenvectors ex_zeros ex_grid_points
     None None"
proof -
  have cs: "get_charge_sum (ex_externals 1 ex_dm) = get_charge_sum (ex_externals 0 ex_dm)"
    and dm: "get_dynamical_matrix_at_q (ex_externals 1 ex_dm) =
             get_dynamical_matrix_at_q (ex_externals 0 ex_dm)"
    and z: "\<forall>w a n uplo. snd (phonopy_zheev (ex_externals 1 ex_dm) w a n uplo) =
             snd (phonopy_zheev (ex_externals 0 ex_dm) w a n uplo)"
    by (simp_all add: ex_externals_def)
  have "fst (phonopy_zheev (ex_externals 1 ex_dm) (data ex_frequencies) (data ex_eigenvectors)
      3 85) = 1"
    by (simp add: ex_externals_def)
  then show ?thesis
    unfolding ex_batch_def using eigensolver_status_discarded [OF cs dm z] by (rule conjI)
qed

text \<open>
  Claim C9 as stated asks that the failure be surfaced to the caller of the batch. Here the
  eigensolver fails for grid point \<open>5\<close> (\<^verbatim>\<open>get_phonons\<close> returns \<open>1\<close> for it), and all that
  the batch call leaves is what it leaves when the eigensolver succeeds everywhere.
\<close>

theorem failure_not_surfaced_counterexample:
  "fst (get_phonons ex_failing (shift (data ex_eigenvectors) (3 * 3 * 5))
     (shift (data ex_marked) (3 * 5)) (grid_q ex_grid_address ex_mesh 5) ex_table (data ex_table)
     ex_zeros ex_zeros ex_multi ex_table None ex_identity ex_identity None 1 1 85) = 1 \<and>
   ex_batch ex_failing ex_marked ex_eigenvectors ex_zeros ex_grid_points None None =
   ex_batch (ex_externals 0 ex_dm) ex_marked ex_eigenvectors ex_zeros ex_grid_points None None"
proof -
  have cs: "get_charge_sum ex_failing = get_charge_sum (ex_externals 0 ex_dm)"
    and dm: "get_dynamical_matrix_at_q ex_failing =
             get_dynamical_matrix_at_q (ex_externals 0 ex_dm)"
    and z: "\<And>w a n uplo. snd (phonopy_zheev ex_failing w a n uplo) =
             snd (phonopy_zheev (ex_externals 0 ex_dm) w a n uplo)"
    by (simp_all add: ex_failing_def ex_externals_def)
  have d: "get_dynamical_matrix_at_q ex_failing (\<lambda>_. 0) (\<lambda>_. 0) (dims ex_multi 1)
       (dims ex_multi 0) (data ex_table) (grid_q ex_grid_address ex_mesh 5) (data ex_table)
       (data ex_multi) (data ex_table) ex_zeros ex_zeros
       (nac_charge_sum ex_failing (dims ex_multi 1) (dims ex_multi 0)
          (grid_q ex_grid_address ex_mesh 5) None ex_identity ex_identity None 1) =
       (fst ex_dm, snd ex_dm)"
    by (simp add: ex_failing_def ex_externals_def)
  have "fst (get_phonons ex_failing (shift (data ex_eigenvectors) (3 * 3 * 5))
     (shift (data ex_marked) (3 * 5)) (grid_q ex_grid_address ex_mesh 5) ex_table (data ex_table)
     ex_zeros ex_zeros ex_multi ex_table None ex_identity ex_identity None 1 1 85) = 1"
    unfolding get_phonons_status [OF d]
    by (simp add: ex_failing_def shift_def ex_marked_def)
  then show ?thesis
    unfolding ex_batch_def using batch_status_irrelevant [OF cs dm z] by (rule conjI)
qed

section \<open>A failed diagonalization\<close>


lemma undone_step_frequencies:
  assumes dm: "get_dynamical_matrix_at_q E (\<lambda>_. 0) (\<lambda>_. 0) (dims multi_fc2 1) (dims multi_fc2 0)
       (data fc2) (grid_q grid_address mesh gp) (data svecs_fc2) (data multi_fc2) masses_fc2
       s2p_fc2 p2s_fc2
       (nac_charge_sum E (dims multi_fc2 1) (dims multi_fc2 0) (grid_q grid_address mesh gp) born
          dielectric reciprocal_lattice (if gp = 0 then q_direction else None) nac_factor) =
       (dm_real, dm_imag)"
    and z: "phonopy_zheev E (shift (data frequencies) (dims frequencies 1 * gp))
       (hermitize dm_real dm_imag (dims multi_fc2 1)
          (shift (data eigenvectors) (dims frequencies 1 * dims frequencies 1 * gp)))
       (dims multi_fc2 1 * 3) uplo = (info, leftover, a2)"
  shows "fst (undone_step E grid_address mesh fc2 svecs_fc2 multi_fc2 masses_fc2 p2s_fc2 s2p_fc2
       unit_conversion_factor born dielectric reciprocal_lattice q_direction nac_factor uplo gp
       (frequencies, eigenvectors)) =
     frequencies\<lparr>data := unshift (dims frequencies 1 * gp)
       (convert_frequencies unit_conversion_factor (dims multi_fc2 1 * 3) leftover)\<rparr>"
  unfolding undone_step_unfold get_phonons_frequencies [OF dm z] by simp

lemma undone_step_dims:
  "dims (fst (undone_step E grid_address mesh fc2 svecs_fc2 multi_fc2 masses_fc2 p2s_fc2 s2p_fc2
       unit_conversion_factor born dielectric reciprocal_lattice q_direction nac_factor uplo gp
       s)) = dims (fst s)"
  by (cases s) (simp add: undone_step_unfold split: prod.splits)

lemma undone_step_frame:
  assumes local: "\<forall>w a n uplo k. k < 0 \<or> n \<le> k \<longrightarrow>
       fst (snd (phonopy_zheev E w a n uplo)) k = w k"
    and k: "k < dims (fst s) 1 * gp \<or> dims (fst s) 1 * gp + dims multi_fc2 1 * 3 \<le> k"
  shows "data (fst (undone_step E grid_address mesh fc2 svecs_fc2 multi_fc2 masses_fc2
       p2s_fc2 s2p_fc2 unit_conversion_factor born dielectric reciprocal_lattice q_direction
       nac_factor uplo gp s)) k = data (fst s) k"
proof (cases s)
  case (Pair frequencies eigenvectors)
  obtain dm_real dm_imag where dm: "get_dynamical_matrix_at_q E (\<lambda>_. 0) (\<lambda>_. 0)
       (dims multi_fc2 1) (dims multi_fc2 0)
       (data fc2) (grid_q grid_address mesh gp) (data svecs_fc2) (data multi_fc2) masses_fc2
       s2p_fc2 p2s_fc2
       (nac_charge_sum E (dims multi_fc2 1) (dims multi_fc2 0) (grid_q grid_address mesh gp) born
          dielectric reciprocal_lattice (if gp = 0 then q_direction else None) nac_factor) =
       (dm_real, dm_imag)"
    by (meson surj_pair)
  obtain info leftover a2 where z: "phonopy_zheev E
       (shift (data frequencies) (dims frequencies 1 * gp))
       (hermitize dm_real dm_imag (dims multi_fc2 1)
          (shift (data eigenvectors) (dims frequencies 1 * dims frequencies 1 * gp)))
       (dims multi_fc2 1 * 3) uplo = (info, leftover, a2)"
    by (meson prod_cases3)
  define j where "j = k - dims frequencies 1 * gp"
  have out: "j < 0 \<or> dims multi_fc2 1 * 3 \<le> j"
    using k by (auto simp: j_def Pair)
  have "leftover j = shift (data frequencies) (dims frequencies 1 * gp) j"
    using local [rule_format, OF out,
      of "shift (data frequencies) (dims frequencies 1 * gp)"
         "hermitize dm_real dm_imag (dims multi_fc2 1)
            (shift (data eigenvectors) (dims frequencies 1 * dims frequencies 1 * gp))" uplo]
    by (simp add: z)
  then have "convert_frequencies unit_conversion_factor (dims multi_fc2 1 * 3) leftover j =
      data frequencies k"
    using out by (auto simp: convert_frequencies_entry shift_def j_def)
  then show ?thesis
    unfolding Pair undone_step_frequencies [OF dm z] by (simp add: unshift_def j_def)
qed

lemma slots_disjoint:
  fixes nb :: int
  assumes "y \<noteq> gp" "0 \<le> k" "k < n" "n \<le> nb"
  shows "nb * gp + k < nb * y \<or> nb * y + n \<le> nb * gp + k"
proof (cases "y < gp")
  case True
  then have "nb * (y + 1) \<le> nb * gp"
    using assms by (intro mult_left_mono) auto
  then show ?thesis using assms by (simp add: algebra_simps)
next
  case False
  then have "nb * (gp + 1) \<le> nb * y"
    using assms by (intro mult_left_mono) auto
  then show ?thesis using assms by (simp add: algebra_simps)
qed

lemma undone_fold_dims:
  "dims (fst (fold (undone_step E grid_address mesh fc2 svecs_fc2 multi_fc2 masses_fc2 p2s_fc2
       s2p_fc2 unit_conversion_factor born dielectric reciprocal_lattice q_direction nac_factor
       uplo) ys s)) = dims (fst s)"
  by (induction ys arbitrary: s) (simp_all add: undone_step_dims)

lemma undone_fold_frame:
  assumes local: "\<forall>w a n uplo k. k < 0 \<or> n \<le> k \<longrightarrow>
       fst (snd (phonopy_zheev E w a n uplo)) k = w k"
    and fit: "dims multi_fc2 1 * 3 \<le> dims (fst s) 1"
    and other: "gp \<notin> set ys"
    and k: "0 \<le> k" "k < dims multi_fc2 1 * 3"
  shows "data (fst (fold (undone_step E grid_address mesh fc2 svecs_fc2 multi_fc2 masses_fc2
       p2s_fc2 s2p_fc2 unit_conversion_factor born dielectric reciprocal_lattice q_direction
       nac_factor uplo) ys s)) (dims (fst s) 1 * gp + k) =
     data (fst s) (dims (fst s) 1 * gp + k)"
  using fit other
proof (induction ys arbitrary: s)
  case Nil
  then show ?case by simp
next
  case (Cons y ys)
  define s1 where "s1 = undone_step E grid_address mesh fc2 svecs_fc2 multi_fc2 masses_fc2
       p2s_fc2 s2p_fc2 unit_conversion_factor born dielectric reciprocal_lattice q_direction
       nac_factor uplo y s"
  have d: "dims (fst s1) = dims (fst s)"
    unfolding s1_def by (rule undone_step_dims)
  have "y \<noteq> gp" using Cons.prems(2) by auto
  then have "dims (fst s) 1 * gp + k < dims (fst s) 1 * y \<or>
      dims (fst s) 1 * y + dims multi_fc2 1 * 3 \<le> dims (fst s) 1 * gp + k"
    using k Cons.prems(1) by (rule slots_disjoint)
  then have one: "data (fst s1) (dims (fst s) 1 * gp + k) = data (fst s) (dims (fst s) 1 * gp + k)"
    unfolding s1_def by (rule undone_step_frame [OF local])
  have "data (fst (fold (undone_step E grid_address mesh fc2 svecs_fc2 multi_fc2 masses_fc2
       p2s_fc2 s2p_fc2 unit_conversion_factor born dielectric reciprocal_lattice q_direction
       nac_factor uplo) ys s1)) (dims (fst s1) 1 * gp + k) =
     data (fst s1) (dims (fst s1) 1 * gp + k)"
    using Cons.prems by (intro Cons.IH) (simp_all add: d)
  then show ?case
    unfolding d one by (simp only: fold_simps comp_apply s1_def)
qed

lemma batch_flags:
  "snd (snd (set_phonons_at_gridpoints E frequencies eigenvectors phonon_done grid_points
       grid_address mesh fc2 svecs_fc2 multi_fc2 masses_fc2 p2s_fc2 s2p_fc2
       unit_conversion_factor born dielectric reciprocal_lattice q_direction nac_factor uplo)) =
   snd (collect_undone_grid_points phonon_done (dims grid_points 0) (data grid_points))"
  by (simp add: set_phonons_at_gridpoints_def split: prod.splits)

lemma batch_frequencies:
  "fst (set_phonons_at_gridpoints E frequencies eigenvectors phonon_done grid_points
       grid_address mesh fc2 svecs_fc2 multi_fc2 masses_fc2 p2s_fc2 s2p_fc2
       unit_conversion_factor born dielectric reciprocal_lattice q_direction nac_factor uplo) =
   fst (get_undone_phonons E frequencies eigenvectors
       (fst (collect_undone_grid_points phonon_done (dims grid_points 0) (data grid_points)))
       grid_address mesh fc2 svecs_fc2 multi_fc2 masses_fc2 p2s_fc2 s2p_fc2
       unit_conversion_factor born dielectric reciprocal_lattice q_direction nac_factor uplo)"
  by (simp add: set_phonons_at_gridpoints_def split: prod.splits)

lemma collect_flag:
  "snd (collect_undone_grid_points phonon_done n grid_points) x =
     (if x \<in> grid_points ` {0..<n} \<and> phonon_done x = 0 then 1 else phonon_done x)"
proof -
  have "set (map grid_points [0..n - 1]) = grid_points ` {0..<n}"
    by auto
  then show ?thesis
    unfolding collect_undone_grid_points_fold collect_fold_done by simp
qed

lemma collect_selected:
  "set (fst (collect_undone_grid_points phonon_done n grid_points)) =
     {x \<in> grid_points ` {0..<n}. phonon_done x = 0}"
proof -
  have "set (map grid_points [0..n - 1]) = grid_points ` {0..<n}"
    by auto
  then show ?thesis
    unfolding collect_undone_grid_points_fold collect_fold_set by simp
qed

lemma collect_distinct:
  "distinct (fst (collect_undone_grid_points phonon_done n grid_points))"
  unfolding collect_undone_grid_points_fold
  by (rule collect_fold_distinct) simp_all

lemma undone_run_slot:
  assumes local: "\<forall>w a n uplo k. k < 0 \<or> n \<le> k \<longrightarrow>
       fst (snd (phonopy_zheev E w a n uplo)) k = w k"
    and fit: "dims multi_fc2 1 * 3 \<le> dims frequencies 1"
    and later: "gp \<notin> set after"
    and state: "get_undone_phonons E frequencies eigenvectors before grid_address mesh fc2
       svecs_fc2 multi_fc2 masses_fc2 p2s_fc2 s2p_fc2 unit_conversion_factor born dielectric
       reciprocal_lattice q_direction nac_factor uplo = (state_frequencies, state_eigenvectors)"
    and dm: "get_dynamical_matrix_at_q E (\<lambda>_. 0) (\<lambda>_. 0) (dims multi_fc2 1) (dims multi_fc2 0)
       (data fc2) (grid_q grid_address mesh gp) (data svecs_fc2) (data multi_fc2) masses_fc2
       s2p_fc2 p2s_fc2
       (nac_charge_sum E (dims multi_fc2 1) (dims multi_fc2 0) (grid_q grid_address mesh gp) born
          dielectric reciprocal_lattice (if gp = 0 then q_direction else None) nac_factor) =
       (dm_real, dm_imag)"
    and z: "phonopy_zheev E (shift (data state_frequencies) (dims frequencies 1 * gp))
       (hermitize dm_real dm_imag (dims multi_fc2 1)
          (shift (data state_eigenvectors) (dims frequencies 1 * dims frequencies 1 * gp)))
       (dims multi_fc2 1 * 3) uplo = (info, leftover, a2)"
    and k: "k \<in> {0..<dims multi_fc2 1 * 3}"
  shows "data (fst (get_undone_phonons E frequencies eigenvectors (before @ gp # after)
       grid_address mesh fc2 svecs_fc2 multi_fc2 masses_fc2 p2s_fc2 s2p_fc2
       unit_conversion_factor born dielectric reciprocal_lattice q_direction nac_factor uplo))
       (dims frequencies 1 * gp + k) =
     frequency_of unit_conversion_factor (leftover k)"
proof -
  let ?step = "undone_step E grid_address mesh fc2 svecs_fc2 multi_fc2 masses_fc2
       p2s_fc2 s2p_fc2 unit_conversion_factor born dielectric reciprocal_lattice q_direction
       nac_factor uplo"
  define s2 where "s2 = ?step gp (state_frequencies, state_eigenvectors)"
  have d1: "dims state_frequencies = dims frequencies"
    using undone_fold_dims [of E grid_address mesh fc2 svecs_fc2 multi_fc2 masses_fc2 p2s_fc2
        s2p_fc2 unit_conversion_factor born dielectric reciprocal_lattice q_direction nac_factor
        uplo before "(frequencies, eigenvectors)"]
      state
    by (simp add: get_undone_phonons_def)
  have run: "get_undone_phonons E frequencies eigenvectors (before @ gp # after) grid_address
       mesh fc2 svecs_fc2 multi_fc2 masses_fc2 p2s_fc2 s2p_fc2 unit_conversion_factor born
       dielectric reciprocal_lattice q_direction nac_factor uplo = fold ?step after s2"
    using state unfolding get_undone_phonons_def s2_def
    by (simp only: fold_append fold_simps comp_apply)
  have f2: "fst s2 = state_frequencies\<lparr>data := unshift (dims frequencies 1 * gp)
       (convert_frequencies unit_conversion_factor (dims multi_fc2 1 * 3) leftover)\<rparr>"
    unfolding s2_def
    using undone_step_frequencies [of E multi_fc2 fc2 grid_address mesh gp svecs_fc2 masses_fc2
        s2p_fc2 p2s_fc2 born dielectric reciprocal_lattice q_direction nac_factor dm_real dm_imag
        state_frequencies state_eigenvectors uplo info leftover a2 unit_conversion_factor]
      dm z
    by (simp add: d1)
  have d2: "dims (fst s2) = dims frequencies"
    by (simp add: f2 d1)
  have "data (fst (fold ?step after s2)) (dims (fst s2) 1 * gp + k) =
        data (fst s2) (dims (fst s2) 1 * gp + k)"
    using local _ later by (rule undone_fold_frame) (use k fit d2 in simp_all)
  then have "data (fst (fold ?step after s2)) (dims frequencies 1 * gp + k) =
        data (fst s2) (dims frequencies 1 * gp + k)"
    by (simp only: d2)
  also have "\<dots> = frequency_of unit_conversion_factor (leftover k)"
    using k by (simp add: f2 unshift_def convert_frequencies_entry)
  finally show ?thesis
    unfolding run .
qed

text \<open>
  Claim C10. There is no atomicity on a failed diagonalization. Whatever status the
  eigensolver returns, a nonzero one included, \<^verbatim>\<open>get_phonons\<close> returns that status, and the
  frequency it leaves for each band is \<open>sign x * sqrt \<bar>x\<bar> * unit_conversion_factor\<close> for the
  value \<open>x\<close> that the solver left in \<^verbatim>\<open>w\<close>. After a batch call the flag of every requested
  grid point \<open>gp\<close> is nonzero, whatever the eigensolver did. In every later batch call, with
  any request, any buffers and any eigensolver, a grid point whose flag is nonzero is not
  among the points handed to the solver and its flag is left as it is; by induction on the
  calls it is never recomputed. And the slot of \<open>gp\<close> holds, after the batch, the converted
  values of what the eigensolver left on the call made for \<open>gp\<close>: the call on the buffers as
  they are after the points that precede \<open>gp\<close> in the list of undone points, with the matrix
  built for the wavevector of \<open>gp\<close>. This last part is for an eigensolver that writes only
  the first \<open>n\<close> cells of \<^verbatim>\<open>w\<close> and a frequency slot at least \<open>3 * num_patom\<close> wide.
\<close>

theorem failed_point_stays_done:
  assumes batch:
    "set_phonons_at_gridpoints E frequencies eigenvectors phonon_done grid_points grid_address
       mesh fc2 svecs_fc2 multi_fc2 masses_fc2 p2s_fc2 s2p_fc2 unit_conversion_factor born
       dielectric reciprocal_lattice q_direction nac_factor uplo =
       (frequencies', eigenvectors', phonon_done')"
    and req: "i \<in> {0..<dims grid_points 0}"
    and gp: "gp = data grid_points i"
  shows
    "(\<forall>a w q direction dm_real dm_imag info leftover a2.
        get_dynamical_matrix_at_q E (\<lambda>_. 0) (\<lambda>_. 0) (dims multi_fc2 1) (dims multi_fc2 0)
          (data fc2) q (data svecs_fc2) (data multi_fc2) masses_fc2 s2p_fc2 p2s_fc2
          (nac_charge_sum E (dims multi_fc2 1) (dims multi_fc2 0) q born dielectric
             reciprocal_lattice direction nac_factor) = (dm_real, dm_imag) \<longrightarrow>
        phonopy_zheev E w (hermitize dm_real dm_imag (dims multi_fc2 1) a)
          (dims multi_fc2 1 * 3) uplo = (info, leftover, a2) \<longrightarrow>
        fst (get_phonons E a w q fc2 masses_fc2 p2s_fc2 s2p_fc2 multi_fc2 svecs_fc2 born
          dielectric reciprocal_lattice direction nac_factor unit_conversion_factor uplo) = info \<and>
        (\<forall>k \<in> {0..<dims multi_fc2 1 * 3}.
           fst (snd (get_phonons E a w q fc2 masses_fc2 p2s_fc2 s2p_fc2 multi_fc2 svecs_fc2 born
             dielectric reciprocal_lattice direction nac_factor unit_conversion_factor uplo)) k =
           sgn (leftover k) * sqrt \<bar>leftover k\<bar> * unit_conversion_factor)) \<and>
     phonon_done' gp \<noteq> 0 \<and>
     (\<forall>E_later frequencies_later eigenvectors_later done_later request_later.
        done_later gp \<noteq> 0 \<longrightarrow>
          gp \<notin> set (fst (collect_undone_grid_points done_later (dims request_later 0)
                          (data request_later))) \<and>
          snd (snd (set_phonons_at_gridpoints E_later frequencies_later eigenvectors_later
            done_later request_later
            grid_address mesh fc2 svecs_fc2 multi_fc2 masses_fc2 p2s_fc2 s2p_fc2
            unit_conversion_factor born dielectric reciprocal_lattice q_direction nac_factor
            uplo)) gp = done_later gp) \<and>
     (\<forall>before after state_frequencies state_eigenvectors dm_real dm_imag info leftover a2.
        fst (collect_undone_grid_points phonon_done (dims grid_points 0) (data grid_points)) =
          before @ gp # after \<and>
        get_undone_phonons E frequencies eigenvectors before grid_address mesh fc2 svecs_fc2
          multi_fc2 masses_fc2 p2s_fc2 s2p_fc2 unit_conversion_factor born dielectric
          reciprocal_lattice q_direction nac_factor uplo =
          (state_frequencies, state_eigenvectors) \<and>
        get_dynamical_matrix_at_q E (\<lambda>_. 0) (\<lambda>_. 0) (dims multi_fc2 1) (dims multi_fc2 0)
          (data fc2) (grid_q grid_address mesh gp) (data svecs_fc2) (data multi_fc2) masses_fc2
          s2p_fc2 p2s_fc2
          (nac_charge_sum E (dims multi_fc2 1) (dims multi_fc2 0) (grid_q grid_address mesh gp)
             born dielectric reciprocal_lattice (if gp = 0 then q_direction else None)
             nac_factor) = (dm_real, dm_imag) \<and>
        phonopy_zheev E (shift (data state_frequencies) (dims frequencies 1 * gp))
          (hermitize dm_real dm_imag (dims multi_fc2 1)
             (shift (data state_eigenvectors) (dims frequencies 1 * dims frequencies 1 * gp)))
          (dims multi_fc2 1 * 3) uplo = (info, leftover, a2) \<and>
        (\<forall>w a n uplo k. k < 0 \<or> n \<le> k \<longrightarrow> fst (snd (phonopy_zheev E w a n uplo)) k = w k) \<and>
        dims multi_fc2 1 * 3 \<le> dims frequencies 1 \<longrightarrow>
        (\<forall>k \<in> {0..<dims multi_fc2 1 * 3}.
           data frequencies' (dims frequencies 1 * gp + k) =
           sgn (leftover k) * sqrt \<bar>leftover k\<bar> * unit_conversion_factor))"
proof (intro conjI allI impI ballI)
  fix a w q direction dm_real dm_imag info leftover a2
  assume dm: "get_dynamical_matrix_at_q E (\<lambda>_. 0) (\<lambda>_. 0) (dims multi_fc2 1) (dims multi_fc2 0)
          (data fc2) q (data svecs_fc2) (data multi_fc2) masses_fc2 s2p_fc2 p2s_fc2
          (nac_charge_sum E (dims multi_fc2 1) (dims multi_fc2 0) q born dielectric
             reciprocal_lattice direction nac_factor) = (dm_real, dm_imag)"
    and z: "phonopy_zheev E w (hermitize dm_real dm_imag (dims multi_fc2 1) a)
          (dims multi_fc2 1 * 3) uplo = (info, leftover, a2)"
  note res = get_phonons_frequencies [OF dm z]
  show "fst (get_phonons E a w q fc2 masses_fc2 p2s_fc2 s2p_fc2 multi_fc2 svecs_fc2 born
          dielectric reciprocal_lattice direction nac_factor unit_conversion_factor uplo) = info"
    by (simp add: res)
  fix k assume "k \<in> {0..<dims multi_fc2 1 * 3}"
  then show "fst (snd (get_phonons E a w q fc2 masses_fc2 p2s_fc2 s2p_fc2 multi_fc2 svecs_fc2
             born dielectric reciprocal_lattice direction nac_factor unit_conversion_factor
             uplo)) k =
           sgn (leftover k) * sqrt \<bar>leftover k\<bar> * unit_conversion_factor"
    by (simp add: res convert_frequencies_entry frequency_of_sgn)
next
  have "phonon_done' = snd (collect_undone_grid_points phonon_done (dims grid_points 0)
      (data grid_points))"
    using batch_flags [of E frequencies eigenvectors phonon_done grid_points grid_address
       mesh fc2 svecs_fc2 multi_fc2 masses_fc2 p2s_fc2 s2p_fc2 unit_conversion_factor born
       dielectric reciprocal_lattice q_direction nac_factor uplo]
    unfolding batch by simp
  then show "phonon_done' gp \<noteq> 0"
    using req by (simp add: collect_flag gp)
next
  fix E_later :: externals and frequencies_later :: Darray and eigenvectors_later :: Carray
    and done_later :: "cchar ptr" and request_later :: Iarray
  assume flag: "done_later gp \<noteq> 0"
  show "gp \<notin> set (fst (collect_undone_grid_points done_later (dims request_later 0)
      (data request_later)))"
    using flag by (simp add: collect_selected)
  show "snd (snd (set_phonons_at_gridpoints E_later frequencies_later eigenvectors_later
            done_later request_later
            grid_address mesh fc2 svecs_fc2 multi_fc2 masses_fc2 p2s_fc2 s2p_fc2
            unit_conversion_factor born dielectric reciprocal_lattice q_direction nac_factor
            uplo)) gp = done_later gp"
    using flag by (simp add: batch_flags collect_flag)
next
  fix before after :: "int list" and state_frequencies :: Darray
    and state_eigenvectors :: Carray and dm_real dm_imag :: "real ptr" and info :: int
    and leftover :: "real ptr" and a2 :: "complex ptr" and k :: int
  assume h: "fst (collect_undone_grid_points phonon_done (dims grid_points 0)
          (data grid_points)) = before @ gp # after \<and>
        get_undone_phonons E frequencies eigenvectors before grid_address mesh fc2 svecs_fc2
          multi_fc2 masses_fc2 p2s_fc2 s2p_fc2 unit_conversion_factor born dielectric
          reciprocal_lattice q_direction nac_factor uplo =
          (state_frequencies, state_eigenvectors) \<and>
        get_dynamical_matrix_at_q E (\<lambda>_. 0) (\<lambda>_. 0) (dims multi_fc2 1) (dims multi_fc2 0)
          (data fc2) (grid_q grid_address mesh gp) (data svecs_fc2) (data multi_fc2) masses_fc2
          s2p_fc2 p2s_fc2
          (nac_charge_sum E (dims multi_fc2 1) (dims multi_fc2 0) (grid_q grid_address mesh gp)
             born dielectric reciprocal_lattice (if gp = 0 then q_direction else None)
             nac_factor) = (dm_real, dm_imag) \<and>
        phonopy_zheev E (shift (data state_frequencies) (dims frequencies 1 * gp))
          (hermitize dm_real dm_imag (dims multi_fc2 1)
             (shift (data state_eigenvectors) (dims frequencies 1 * dims frequencies 1 * gp)))
          (dims multi_fc2 1 * 3) uplo = (info, leftover, a2) \<and>
        (\<forall>w a n uplo k. k < 0 \<or> n \<le> k \<longrightarrow> fst (snd (phonopy_zheev E w a n uplo)) k = w k) \<and>
        dims multi_fc2 1 * 3 \<le> dims frequencies 1"
    and k: "k \<in> {0..<dims multi_fc2 1 * 3}"
  note undone = h [THEN conjunct1]
  note state = h [THEN conjunct2, THEN conjunct1]
  note dm = h [THEN conjunct2, THEN conjunct2, THEN conjunct1]
  note z = h [THEN conjunct2, THEN conjunct2, THEN conjunct2, THEN conjunct1]
  note local = h [THEN conjunct2, THEN conjunct2, THEN conjunct2, THEN conjunct2, THEN conjunct1]
  note fit = h [THEN conjunct2, THEN conjunct2, THEN conjunct2, THEN conjunct2, THEN conjunct2]
  have "distinct (before @ gp # after)"
    using collect_distinct [of phonon_done "dims grid_points 0" "data grid_points"]
    unfolding undone .
  then have later: "gp \<notin> set after" by simp
  have "frequencies' = fst (get_undone_phonons E frequencies eigenvectors (before @ gp # after)
       grid_address mesh fc2 svecs_fc2 multi_fc2 masses_fc2 p2s_fc2 s2p_fc2
       unit_conversion_factor born dielectric reciprocal_lattice q_direction nac_factor uplo)"
    using batch_frequencies [of E frequencies eigenvectors phonon_done grid_points grid_address
       mesh fc2 svecs_fc2 multi_fc2 masses_fc2 p2s_fc2 s2p_fc2 unit_conversion_factor born
       dielectric reciprocal_lattice q_direction nac_factor uplo]
    unfolding batch undone by simp
  then have "data frequencies' (dims frequencies 1 * gp + k) =
      frequency_of unit_conversion_factor (leftover k)"
    using undone_run_slot [OF local fit later state dm z k] by simp
  then show "data frequencies' (dims frequencies 1 * gp + k) =
           sgn (leftover k) * sqrt \<bar>leftover k\<bar> * unit_conversion_factor"
    by (simp add: frequency_of_sgn)
qed

text \<open>
  The eigensolver fails for grid point \<open>5\<close> of the request \<open>[5, 5, 7]\<close> and leaves
  \<open>(1, - 4, - 4)\<close> in \<^verbatim>\<open>w\<close>: \<^verbatim>\<open>get_phonons\<close> returns the status \<open>1\<close>, the flag of \<open>5\<close> is set
  after the batch, the same request does not select \<open>5\<close> again, and the slot of \<open>5\<close>
  starts with \<open>1\<close> and \<open>- 2\<close>.
\<close>

theorem failed_point_stays_done_witness:
  "fst (get_phonons ex_failing (shift (data ex_eigenvectors) 45) (shift (data ex_marked) 15)
     (grid_q ex_grid_address ex_mesh 5) ex_table (data ex_table) ex_zeros ex_zeros ex_multi
     ex_table None ex_identity ex_identity None 1 1 85) = 1 \<and>
   snd (snd (ex_batch ex_failing ex_marked ex_eigenvectors ex_zeros ex_grid_points None None)) 5
     \<noteq> 0 \<and>
   5 \<notin> set (fst (collect_undone_grid_points
     (snd (snd (ex_batch ex_failing ex_marked ex_eigenvectors ex_zeros ex_grid_points None None)))
     (dims ex_grid_points 0) (data ex_grid_points))) \<and>
   data (fst (ex_batch ex_failing ex_marked ex_eigenvectors ex_zeros ex_grid_points None None))
     15 = 1 \<and>
   data (fst (ex_batch ex_failing ex_marked ex_eigenvectors ex_zeros ex_grid_points None None))
     16 = - 2"
proof -
  define B where
    "B = ex_batch ex_failing ex_marked ex_eigenvectors ex_zeros ex_grid_points None None"
  have batch: "set_phonons_at_gridpoints ex_failing ex_marked ex_eigenvectors ex_zeros
       ex_grid_points ex_grid_address ex_mesh ex_table ex_table ex_multi (data ex_table) ex_zeros
       ex_zeros 1 None ex_identity ex_identity None 1 85 = (fst B, fst (snd B), snd (snd B))"
    by (simp add: B_def ex_batch_def)
  have req: "(0::int) \<in> {0..<dims ex_grid_points 0}"
    and gp: "(5::int) = data ex_grid_points 0"
    by (simp_all add: ex_grid_points_def)
  note law = failed_point_stays_done [OF batch req gp]
  have nb: "dims ex_marked 1 = 3"
    by (simp add: ex_marked_def)
  have dm: "get_dynamical_matrix_at_q ex_failing (\<lambda>_. 0) (\<lambda>_. 0) (dims ex_multi 1)
       (dims ex_multi 0) (data ex_table) (grid_q ex_grid_address ex_mesh 5) (data ex_table)
       (data ex_multi) (data ex_table) ex_zeros ex_zeros
       (nac_charge_sum ex_failing (dims ex_multi 1) (dims ex_multi 0)
          (grid_q ex_grid_address ex_mesh 5) None ex_identity ex_identity
          (if (5::int) = 0 then None else None) 1) =
       (fst ex_dm, snd ex_dm)"
    by (simp add: ex_failing_def ex_externals_def)
  have z: "phonopy_zheev ex_failing (shift (data ex_marked) (dims ex_marked 1 * 5))
       (hermitize (fst ex_dm) (snd ex_dm) (dims ex_multi 1)
          (shift (data ex_eigenvectors) (dims ex_marked 1 * dims ex_marked 1 * 5)))
       (dims ex_multi 1 * 3) 85 =
       (1, shift (data ex_marked) (dims ex_marked 1 * 5),
        hermitize (fst ex_dm) (snd ex_dm) (dims ex_multi 1)
          (shift (data ex_eigenvectors) (dims ex_marked 1 * dims ex_marked 1 * 5)))"
    by (simp add: ex_failing_def shift_def ex_marked_def)
  have failed: "fst (get_phonons ex_failing (shift (data ex_eigenvectors) 45)
     (shift (data ex_marked) 15) (grid_q ex_grid_address ex_mesh 5) ex_table (data ex_table)
     ex_zeros ex_zeros ex_multi ex_table None ex_identity ex_identity None 1 1 85) = 1"
  proof -
    have dm0: "get_dynamical_matrix_at_q ex_failing (\<lambda>_. 0) (\<lambda>_. 0) (dims ex_multi 1)
       (dims ex_multi 0) (data ex_table) (grid_q ex_grid_address ex_mesh 5) (data ex_table)
       (data ex_multi) (data ex_table) ex_zeros ex_zeros
       (nac_charge_sum ex_failing (dims ex_multi 1) (dims ex_multi 0)
          (grid_q ex_grid_address ex_mesh 5) None ex_identity ex_identity None 1) =
       (fst ex_dm, snd ex_dm)"
      by (simp add: ex_failing_def ex_externals_def)
    have z0: "phonopy_zheev ex_failing (shift (data ex_marked) 15)
       (hermitize (fst ex_dm) (snd ex_dm) (dims ex_multi 1) (shift (data ex_eigenvectors) 45))
       (dims ex_multi 1 * 3) 85 =
       (1, shift (data ex_marked) 15,
        hermitize (fst ex_dm) (snd ex_dm) (dims ex_multi 1) (shift (data ex_eigenvectors) 45))"
      by (simp add: ex_failing_def shift_def ex_marked_def)
    from law [THEN conjunct1, rule_format, OF dm0 z0] show ?thesis
      by (rule conjunct1)
  qed
  have flag: "snd (snd B) 5 \<noteq> 0"
    using law [THEN conjunct2, THEN conjunct1] .
  have never: "5 \<notin> set (fst (collect_undone_grid_points (snd (snd B))
     (dims ex_grid_points 0) (data ex_grid_points)))"
    using law [THEN conjunct2, THEN conjunct2, THEN conjunct1, rule_format,
      where done_later = "snd (snd B)" and request_later = ex_grid_points, OF flag]
    by (rule conjunct1)
  have undone: "fst (collect_undone_grid_points ex_zeros (dims ex_grid_points 0)
      (data ex_grid_points)) = [] @ 5 # [7]"
    by (simp add: collect_undone_grid_points_def collect_step_def ex_grid_points_def upto_0_2
        ex_zeros_def)
  have state: "get_undone_phonons ex_failing ex_marked ex_eigenvectors [] ex_grid_address ex_mesh
      ex_table ex_table ex_multi (data ex_table) ex_zeros ex_zeros 1 None ex_identity ex_identity
      None 1 85 = (ex_marked, ex_eigenvectors)"
    by (rule get_undone_phonons_Nil)
  have local: "\<forall>w a n uplo k. k < 0 \<or> n \<le> k \<longrightarrow>
        fst (snd (phonopy_zheev ex_failing w a n uplo)) k = w k"
    by (simp add: ex_failing_def)
  have fit: "dims ex_multi 1 * 3 \<le> dims ex_marked 1"
    by (simp add: ex_multi_def ex_marked_def)
  note slot = law [THEN conjunct2, THEN conjunct2, THEN conjunct2, rule_format,
    OF conjI [OF undone conjI [OF state conjI [OF dm conjI [OF z conjI [OF local fit]]]]]]
  have k0: "(0::int) \<in> {0..<dims ex_multi 1 * 3}" and k1: "(1::int) \<in> {0..<dims ex_multi 1 * 3}"
    by (simp_all add: ex_multi_def)
  have s0: "data (fst B) 15 = 1"
    using slot [OF k0] by (simp add: nb shift_def ex_marked_def)
  have s1: "data (fst B) 16 = - 2"
    using slot [OF k1] by (simp add: nb shift_def ex_marked_def)
  from failed flag never s0 s1 show ?thesis
    unfolding B_def by (intro conjI)
qed


end
